theory Spec2Isabelle
  imports Complex_Main "HOL-Library.Multiset" "HOL-Library.Char_ord"
begin

section \<open>JavaScript values of the trading journal\<close>

text \<open>
  The journal is JavaScript. Its numbers are modelled as reals and its arithmetic is exact,
  with one exception: the balance of the portfolio is the result of one addition or
  subtraction after another, and what it is after a trade has been added and deleted again
  depends on how each of them rounds. Every update of a balance is therefore rounded to a
  double (\<open>round_double\<close> below). Overflow and the infinities of IEEE doubles are
  outside the model. The one non-number the code
  guards against everywhere, \<open>NaN\<close> (what \<open>parseFloat\<close> returns on text that is
  not a number), is \<open>None\<close> in a \<open>real option\<close>. A field that the code sets to
  \<open>null\<close> when it is absent is a \<open>real option\<close> too, with \<open>None\<close> for \<open>null\<close>.
\<close>

definition or_zero :: "real option \<Rightarrow> real" where
  \<comment> \<open>\<open>x || 0\<close> on a number: \<open>NaN\<close> and \<open>0\<close> are falsy.\<close>
  "or_zero x = (case x of None \<Rightarrow> 0 | Some v \<Rightarrow> v)"

definition or_null :: "real option \<Rightarrow> real option" where
  \<comment> \<open>\<open>x || null\<close> on a number: \<open>NaN\<close> and \<open>0\<close> become \<open>null\<close>.\<close>
  "or_null x = (case x of None \<Rightarrow> None | Some v \<Rightarrow> if v = 0 then None else Some v)"

definition or_one :: "int option \<Rightarrow> int" where
  \<comment> \<open>\<open>parseInt(..) || 1\<close>.\<close>
  "or_one x = (case x of None \<Rightarrow> 1 | Some v \<Rightarrow> if v = 0 then 1 else v)"

definition truthy :: "real option \<Rightarrow> bool" where
  \<comment> \<open>A number or \<open>null\<close> in a condition: \<open>null\<close>, \<open>NaN\<close> and \<open>0\<close> are falsy.\<close>
  "truthy x = (case x of None \<Rightarrow> False | Some v \<Rightarrow> v \<noteq> 0)"

definition outcome_of :: "real \<Rightarrow> string" where
  \<comment> \<open>\<open>netPL >= 0 ? 'Win' : 'Loss'\<close>\<close>
  "outcome_of pl = (if pl \<ge> 0 then ''Win'' else ''Loss'')"

subsection \<open>Rounding to a double\<close>

text \<open>
  A JavaScript number is an IEEE 754 double: an integer of at most 53 bits times a power of
  two, the leading bit at an exponent from -1022 to 1023, and below that the multiples of
  \<open>2 ^ -1074\<close>. The sum or the difference of two doubles is the double nearest to the
  exact result, and of two that are equally near the one whose integer is even. A result
  of \<open>2 ^ 1024\<close> or more is \<open>Infinity\<close> in JavaScript and outside the model.
\<close>

definition pow2 :: "int \<Rightarrow> real" where
  "pow2 e = (if e \<ge> 0 then 2 ^ nat e else 1 / 2 ^ nat (- e))"

fun find_exp :: "nat \<Rightarrow> real \<Rightarrow> int \<Rightarrow> int" where
  \<comment> \<open>The exponent of the leading bit of \<open>x * 2 ^ e\<close> for \<open>x > 0\<close>, and -1022 when it
      is below that; the first argument bounds the number of steps.\<close>
  "find_exp 0 x e = e"
| "find_exp (Suc n) x e =
     (if x \<ge> 2 then find_exp n (x / 2) (e + 1)
      else if x < 1 \<and> e > - 1022 then find_exp n (x * 2) (e - 1)
      else e)"

definition round_half_even :: "real \<Rightarrow> int" where
  \<comment> \<open>The nearest integer, the even one of two that are equally near.\<close>
  "round_half_even r =
     (let f = \<lfloor>r\<rfloor>; d = r - real_of_int f
      in if d < 1 / 2 then f else if d > 1 / 2 then f + 1 else if even f then f else f + 1)"

definition round_double :: "real \<Rightarrow> real" where
  \<comment> \<open>The double nearest to \<open>x\<close>: \<open>x\<close> rounded to a multiple of the power of two that
      is 52 places below its leading bit.\<close>
  "round_double x =
     (if x = 0 then 0
      else (let q = pow2 (find_exp 2100 \<bar>x\<bar> 0 - 52)
            in sgn x * real_of_int (round_half_even (\<bar>x\<bar> / q)) * q))"

section \<open>Strings\<close>

text \<open>
  JavaScript strings are modelled as \<open>string\<close>, one \<open>char\<close> per code unit; the
  models of the library functions below are exact on ASCII text. White space is what
  \<open>String.prototype.trim\<close>, the regular expression \<open>\s\<close> and \<open>parseFloat\<close> skip:
  tab, line feed, vertical tab, form feed, carriage return and space.
\<close>

definition is_space :: "char \<Rightarrow> bool" where
  "is_space c = (c \<in> set [CHR 0x09, CHR 0x0A, CHR 0x0B, CHR 0x0C, CHR 0x0D, CHR 0x20])"

definition trim :: "string \<Rightarrow> string" where
  "trim s = rev (dropWhile is_space (rev (dropWhile is_space s)))"

definition is_digit :: "char \<Rightarrow> bool" where
  "is_digit c = (CHR ''0'' \<le> c \<and> c \<le> CHR ''9'')"

definition digit_val :: "char \<Rightarrow> nat" where
  "digit_val c = of_char c - 48"

definition digits_val :: "string \<Rightarrow> nat" where
  "digits_val ds = foldl (\<lambda>a c. 10 * a + digit_val c) 0 ds"

definition toUpperCase :: "string \<Rightarrow> string" where
  "toUpperCase s =
     map (\<lambda>c. if CHR ''a'' \<le> c \<and> c \<le> CHR ''z'' then char_of (of_char c - (32::nat)) else c) s"

definition toLowerCase :: "string \<Rightarrow> string" where
  "toLowerCase s =
     map (\<lambda>c. if CHR ''A'' \<le> c \<and> c \<le> CHR ''Z'' then char_of (of_char c + (32::nat)) else c) s"

fun split_on :: "char \<Rightarrow> string \<Rightarrow> string \<Rightarrow> string list" where
  \<comment> \<open>\<open>s.split(sep)\<close> for a one-character separator; \<open>cur\<close> is the piece being read.\<close>
  "split_on sep cur [] = [cur]"
| "split_on sep cur (c # cs) =
     (if c = sep then cur # split_on sep [] cs else split_on sep (cur @ [c]) cs)"

definition split :: "char \<Rightarrow> string \<Rightarrow> string list" where
  "split sep s = split_on sep [] s"

fun replace_spaces :: "bool \<Rightarrow> string \<Rightarrow> string" where
  \<comment> \<open>The flag says that the character before was white space (the run goes on).\<close>
  "replace_spaces in_run [] = []"
| "replace_spaces in_run (c # cs) =
     (if is_space c then (if in_run then replace_spaces True cs
                          else CHR ''_'' # replace_spaces True cs)
      else c # replace_spaces False cs)"

definition spaces_to_underscore :: "string \<Rightarrow> string" where
  \<comment> \<open>\<open>s.replace(/\s+/g, '_')\<close>: every maximal run of white space becomes one underscore.\<close>
  "spaces_to_underscore s = replace_spaces False s"

definition strip_quotes :: "string \<Rightarrow> string" where
  \<comment> \<open>\<open>s.replace(/"/g, '')\<close>\<close>
  "strip_quotes s = filter (\<lambda>c. c \<noteq> CHR 0x22) s"

subsection \<open>parseFloat and parseInt\<close>

text \<open>
  \<open>parseFloat\<close> skips leading white space and reads the longest prefix that is a
  decimal literal: a sign, digits, a fraction, an exponent. Text with no such prefix gives
  \<open>NaN\<close> (\<open>None\<close>). The literal \<open>Infinity\<close> denotes no real and is read as \<open>None\<close>
  as well: infinities are outside the model.
\<close>

definition read_exponent :: "string \<Rightarrow> int" where
  \<comment> \<open>The exponent part at the head of the rest, \<open>0\<close> when there is none.\<close>
  "read_exponent s =
     (case s of
        [] \<Rightarrow> 0
      | c # r \<Rightarrow>
          if c = CHR ''e'' \<or> c = CHR ''E'' then
            (case r of
               [] \<Rightarrow> 0
             | d # r' \<Rightarrow>
                 if d = CHR ''-'' then
                   (if takeWhile is_digit r' = [] then 0
                    else - int (digits_val (takeWhile is_digit r')))
                 else if d = CHR ''+'' then int (digits_val (takeWhile is_digit r'))
                 else int (digits_val (takeWhile is_digit r)))
          else 0)"

definition scale10 :: "real \<Rightarrow> int \<Rightarrow> real" where
  "scale10 x e = (if e \<ge> 0 then x * 10 ^ nat e else x / 10 ^ nat (- e))"

definition read_unsigned :: "string \<Rightarrow> real option" where
  "read_unsigned s =
     (let ip = takeWhile is_digit s; r = dropWhile is_digit s in
        (case r of
           c # r' \<Rightarrow>
             if c = CHR ''.'' then
               (let fp = takeWhile is_digit r' in
                  if ip = [] \<and> fp = [] then None
                  else Some (scale10
                               (real (digits_val ip) + real (digits_val fp) / 10 ^ length fp)
                               (read_exponent (dropWhile is_digit r'))))
             else if ip = [] then None
             else Some (scale10 (real (digits_val ip)) (read_exponent r))
         | [] \<Rightarrow> if ip = [] then None else Some (real (digits_val ip))))"

definition parseFloat :: "string \<Rightarrow> real option" where
  "parseFloat s =
     (case dropWhile is_space s of
        [] \<Rightarrow> None
      | c # r \<Rightarrow>
          if c = CHR ''-'' then map_option uminus (read_unsigned r)
          else if c = CHR ''+'' then read_unsigned r
          else read_unsigned (c # r))"

text \<open>
  \<open>parseInt\<close> with no radix: leading white space, a sign, then hexadecimal digits after
  \<open>0x\<close> and decimal digits otherwise; \<open>NaN\<close> when there is no digit.
\<close>

definition is_hex :: "char \<Rightarrow> bool" where
  "is_hex c = (is_digit c \<or> (CHR ''a'' \<le> c \<and> c \<le> CHR ''f'') \<or> (CHR ''A'' \<le> c \<and> c \<le> CHR ''F''))"

definition hex_val :: "char \<Rightarrow> nat" where
  "hex_val c = (if is_digit c then of_char c - 48
                else if CHR ''a'' \<le> c then of_char c - 87 else of_char c - 55)"

definition read_int :: "string \<Rightarrow> int option" where
  "read_int s =
     (case s of
        a # b # r \<Rightarrow>
          if a = CHR ''0'' \<and> (b = CHR ''x'' \<or> b = CHR ''X'') then
            (if takeWhile is_hex r = [] then None
             else Some (int (foldl (\<lambda>n c. 16 * n + hex_val c) 0 (takeWhile is_hex r))))
          else if takeWhile is_digit s = [] then None
          else Some (int (digits_val (takeWhile is_digit s)))
      | _ \<Rightarrow> if takeWhile is_digit s = [] then None
             else Some (int (digits_val (takeWhile is_digit s))))"

definition parseInt :: "string \<Rightarrow> int option" where
  "parseInt s =
     (case dropWhile is_space s of
        [] \<Rightarrow> None
      | c # r \<Rightarrow>
          if c = CHR ''-'' then map_option uminus (read_int r)
          else if c = CHR ''+'' then read_int r
          else read_int (c # r))"

section \<open>Trades\<close>

text \<open>
  A stored trade. Only the fields that the modelled operations read or compute are kept;
  the descriptive fields (option type, strike, expiration, the Greeks, notes, timestamps)
  are copied through by the code and take part in none of them. \<open>tid\<close> is the key that
  IndexedDB assigns (\<open>None\<close> before the trade is stored); \<open>net_pl\<close> is \<open>None\<close> when the
  stored value is \<open>NaN\<close> or missing.
\<close>

record trade =
  tid :: "nat option"
  date :: string
  ticker :: string
  strategy :: string
  quantity :: int
  entry_price :: "real option"
  exit_price :: "real option"
  premium :: real
  fees :: real
  net_pl :: "real option"
  outcome :: string



section \<open>The function-based revision (src/unnamed/part_002, from line 1100)\<close>




record metrics_fn =
  fn_totalPL :: real
  fn_winRate :: real
  fn_totalTrades :: nat
  fn_avgWin :: real
  fn_avgLoss :: real
  fn_profitFactor :: real

definition sum_pl :: "trade list \<Rightarrow> real" where
  \<comment> \<open>\<open>ts.reduce((sum, t) => sum + (t.net_pl || 0), 0)\<close>\<close>
  "sum_pl ts = foldl (\<lambda>sum t. sum + or_zero (net_pl t)) 0 ts"

definition calculateMetrics_fn :: "trade list \<Rightarrow> metrics_fn" where
  \<comment> \<open>part_002, lines 1824-1856: wins and losses are told by the stored outcome, the win
      rate is a percentage.\<close>
  "calculateMetrics_fn ts =
     (if length ts = 0 then
        \<lparr>fn_totalPL = 0, fn_winRate = 0, fn_totalTrades = 0, fn_avgWin = 0, fn_avgLoss = 0,
         fn_profitFactor = 0\<rparr>
      else
        (let totalPL = sum_pl ts;
             wins = filter (\<lambda>t. outcome t = ''Win'') ts;
             losses = filter (\<lambda>t. outcome t = ''Loss'') ts;
             winRate = (if length ts > 0 then (real (length wins) / real (length ts)) * 100 else 0);
             avgWin = (if length wins > 0 then sum_pl wins / real (length wins) else 0);
             avgLoss = (if length losses > 0 then \<bar>sum_pl losses / real (length losses)\<bar> else 0);
             grossWins = sum_pl wins;
             grossLosses = \<bar>sum_pl losses\<bar>;
             profitFactor = (if grossLosses > 0 then grossWins / grossLosses
                             else if grossWins > 0 then 999 else 0)
         in \<lparr>fn_totalPL = totalPL, fn_winRate = winRate, fn_totalTrades = length ts,
             fn_avgWin = avgWin, fn_avgLoss = avgLoss, fn_profitFactor = profitFactor\<rparr>))"

section \<open>The metrics of src/app.js\<close>

record metrics =
  totalTrades :: nat
  totalPL :: real
  winRate :: real
  totalWins :: nat
  totalLosses :: nat
  averageWin :: real
  averageLoss :: real
  largestWin :: real
  largestLoss :: real
  profitFactor :: real

definition max_list :: "real list \<Rightarrow> real" where
  \<comment> \<open>\<open>Math.max(...xs)\<close>; the code calls it on non-empty lists only (on none it would
      be \<open>-Infinity\<close>, which the model does not have).\<close>
  "max_list xs = (case xs of [] \<Rightarrow> 0 | x # r \<Rightarrow> foldl max x r)"

definition min_list :: "real list \<Rightarrow> real" where
  "min_list xs = (case xs of [] \<Rightarrow> 0 | x # r \<Rightarrow> foldl min x r)"

definition calculateMetrics :: "trade list \<Rightarrow> metrics" where
  \<comment> \<open>app.js, lines 513-549, on \<open>this.filteredTrades\<close>: a trade is a win when its
      \<open>net_pl || 0\<close> is not negative.\<close>
  "calculateMetrics ts =
     (if length ts = 0 then
        \<lparr>totalTrades = 0, totalPL = 0, winRate = 0, totalWins = 0, totalLosses = 0,
         averageWin = 0, averageLoss = 0, largestWin = 0, largestLoss = 0, profitFactor = 0\<rparr>
      else
        (let wins = filter (\<lambda>t. or_zero (net_pl t) \<ge> 0) ts;
             losses = filter (\<lambda>t. or_zero (net_pl t) < 0) ts
         in \<lparr>totalTrades = length ts,
             totalPL = sum_pl ts,
             winRate = (if length ts > 0 then real (length wins) / real (length ts) else 0),
             totalWins = length wins,
             totalLosses = length losses,
             averageWin = (if length wins > 0 then sum_pl wins / real (length wins) else 0),
             averageLoss = (if length losses > 0 then sum_pl losses / real (length losses) else 0),
             largestWin = (if length ts > 0 then max_list (map (\<lambda>t. or_zero (net_pl t)) ts) else 0),
             largestLoss = (if length ts > 0 then min_list (map (\<lambda>t. or_zero (net_pl t)) ts) else 0),
             profitFactor = (if length losses > 0 then sum_pl wins / \<bar>sum_pl losses\<bar>
                             else if length wins > 0 then 999 else 0)\<rparr>))"

section \<open>The class-based revisions: trade forms\<close>

text \<open>
  The add and edit forms hand their fields over as text. Two revisions of the add and
  edit handlers (\<open>handleAddTrade\<close>; \<open>handleEditTradeSubmit\<close> in \<open>r1\<close> and
  \<open>handleEditTrade\<close> in \<open>r2\<close>) are modelled:
  \<^item> \<open>r1\<close>, src/unnamed/part_000 lines 1-1095, where the net P&L is computed from the
    prices;
  \<^item> \<open>r2\<close>, src/unnamed/part_000 lines 1096-2653 (src/unnamed/part_001 has the same
    handlers), where it is premium plus fees.
\<close>

record trade_form =
  f_date :: string
  f_ticker :: string
  f_strategy :: string
  f_quantity :: string
  f_entry_price :: string
  f_exit_price :: string
  f_premium :: string
  f_fees :: string

definition netPL_r1 :: "real option \<Rightarrow> real option \<Rightarrow> int \<Rightarrow> real \<Rightarrow> real \<Rightarrow> real" where
  \<comment> \<open>part_000, lines 321-327 (add) and 790-796 (edit).\<close>
  "netPL_r1 entryPrice exitPrice qty prem fee =
     (if truthy exitPrice \<and> truthy entryPrice then
        (case (exitPrice, entryPrice) of
           (Some x, Some e) \<Rightarrow> ((x - e) * real_of_int qty) + prem + fee
         | _ \<Rightarrow> 0)
      else if prem \<noteq> 0 then prem + fee
      else 0)"

definition form_trade_r1 :: "trade_form \<Rightarrow> trade" where
  \<comment> \<open>The trade object of \<open>handleAddTrade\<close>, part_000 lines 315-349.\<close>
  "form_trade_r1 f =
     (let entryPrice = or_null (parseFloat (f_entry_price f));
          exitPrice = or_null (parseFloat (f_exit_price f));
          qty = or_one (parseInt (f_quantity f));
          prem = or_zero (parseFloat (f_premium f));
          fee = or_zero (parseFloat (f_fees f));
          netPL = netPL_r1 entryPrice exitPrice qty prem fee
      in \<lparr>tid = None, date = f_date f, ticker = toUpperCase (f_ticker f),
          strategy = f_strategy f, quantity = qty, entry_price = entryPrice,
          exit_price = exitPrice, premium = prem, fees = fee, net_pl = Some netPL,
          outcome = outcome_of netPL\<rparr>)"

definition edit_trade_r1 :: "trade \<Rightarrow> trade_form \<Rightarrow> trade" where
  \<comment> \<open>The updated trade of \<open>handleEditTradeSubmit\<close>, part_000 lines 783-815: the existing
      trade with the form's fields and the P&L computed anew.\<close>
  "edit_trade_r1 existingTrade f = (form_trade_r1 f)\<lparr>tid := tid existingTrade\<rparr>"

definition form_trade_r2 :: "trade_form \<Rightarrow> trade" where
  \<comment> \<open>The trade object of \<open>handleAddTrade\<close>, part_000 lines 1372-1394.\<close>
  "form_trade_r2 f =
     (let prem = or_zero (parseFloat (f_premium f));
          fee = or_zero (parseFloat (f_fees f))
      in \<lparr>tid = None, date = f_date f, ticker = toUpperCase (f_ticker f),
          strategy = f_strategy f, quantity = or_one (parseInt (f_quantity f)),
          entry_price = or_null (parseFloat (f_entry_price f)),
          exit_price = or_null (parseFloat (f_exit_price f)),
          premium = prem, fees = fee, net_pl = Some (prem + fee),
          outcome = outcome_of (prem + fee)\<rparr>)"

definition edit_trade_r2 :: "nat \<Rightarrow> trade_form \<Rightarrow> trade" where
  \<comment> \<open>The updated trade of \<open>handleEditTrade\<close>, part_000 lines 1514-1538.\<close>
  "edit_trade_r2 k f = (form_trade_r2 f)\<lparr>tid := Some k\<rparr>"

section \<open>The class-based revisions: the journal and its operations\<close>

text \<open>
  The state of \<open>TradingJournal\<close> in revision \<open>r2\<close>: the IndexedDB store of trades
  (its rows by key and its key generator), the arrays \<open>trades\<close> and
  \<open>filteredTrades\<close>, the balance and the preview of a parsed CSV file. An operation
  runs to its end before the next one starts. What the environment decides is a
  parameter: whether the user confirms a dialog, whether an IndexedDB call throws, and
  the order that \<open>Array.prototype.sort\<close> gives with the date comparator.
  A trade awaiting import carries no key of its own.
\<close>

record journal =
  rows :: "nat \<Rightarrow> trade option"
  keygen :: nat
  trades :: "trade list"
  filteredTrades :: "trade list"
  currentBalance :: real
  previewData :: "trade list"

definition db_getAll :: "journal \<Rightarrow> trade list" where
  "db_getAll j = List.map_filter (rows j) [0..<keygen j]"

definition db_add :: "trade \<Rightarrow> journal \<Rightarrow> trade \<times> journal" where
  \<comment> \<open>\<open>db.add\<close> followed by \<open>trade.id = id\<close>: the stored trade and the store.\<close>
  "db_add t j =
     (let t' = t\<lparr>tid := Some (keygen j)\<rparr> in
        (t', j\<lparr>rows := (rows j)(keygen j \<mapsto> t'), keygen := Suc (keygen j)\<rparr>))"

definition db_put :: "nat \<Rightarrow> trade \<Rightarrow> journal \<Rightarrow> journal" where
  \<comment> \<open>\<open>db.put\<close> of a trade with key \<open>k\<close>; an explicit key moves the generator past it.\<close>
  "db_put k t j = j\<lparr>rows := (rows j)(k \<mapsto> t), keygen := max (keygen j) (Suc k)\<rparr>"

definition loadAllData :: "(trade list \<Rightarrow> trade list) \<Rightarrow> bool \<Rightarrow> journal \<Rightarrow> journal" where
  \<comment> \<open>part_000 lines 1198-1213 and app.js lines 120-135.\<close>
  "loadAllData srt getAll_ok j =
     (if getAll_ok then j\<lparr>trades := srt (db_getAll j), filteredTrades := srt (db_getAll j)\<rparr>
      else j\<lparr>trades := [], filteredTrades := []\<rparr>)"

definition handleAddTrade_r2 :: "trade_form \<Rightarrow> bool \<Rightarrow> journal \<Rightarrow> journal" where
  \<comment> \<open>part_000 lines 1364-1433. The balance grows by \<open>trade.net_pl\<close>, which is
      premium plus fees here.\<close>
  "handleAddTrade_r2 f add_ok j =
     (let t = form_trade_r2 f in
        if date t = [] \<or> ticker t = [] \<or> strategy t = [] then j
        else if \<not> add_ok then j
        else
          (let (t', j1) = db_add t j in
             j1\<lparr>trades := t' # trades j1,
                filteredTrades := t' # trades j1,
                currentBalance := round_double (currentBalance j1 + (premium t + fees t))\<rparr>))"

fun replace_first :: "('a \<Rightarrow> bool) \<Rightarrow> 'a \<Rightarrow> 'a list \<Rightarrow> 'a list" where
  \<comment> \<open>\<open>i = xs.findIndex(P); if (i !== -1) xs[i] = u\<close>\<close>
  "replace_first P u [] = []"
| "replace_first P u (x # xs) = (if P x then u # xs else x # replace_first P u xs)"

definition handleEditTrade_r2 :: "nat \<Rightarrow> trade_form \<Rightarrow> bool \<Rightarrow> bool \<Rightarrow> journal \<Rightarrow> journal" where
  \<comment> \<open>part_000 lines 1500-1576. Reading \<open>created_at\<close> of a trade that is not in the store
      throws, and so does a failing \<open>db.get\<close> or \<open>db.put\<close>: nothing has changed then.\<close>
  "handleEditTrade_r2 k f get_ok put_ok j =
     (if \<not> get_ok then j
      else
        (case rows j k of
           None \<Rightarrow> j
         | Some originalTrade \<Rightarrow>
             (let originalPL = or_zero (net_pl originalTrade);
                  updatedTrade = edit_trade_r2 k f
              in if \<not> put_ok then j
                 else
                   (let j1 = db_put k updatedTrade j in
                      j1\<lparr>currentBalance :=
                            round_double
                              (currentBalance j1
                               + round_double ((premium updatedTrade + fees updatedTrade) - originalPL)),
                         trades := replace_first (\<lambda>t. tid t = Some k) updatedTrade (trades j1),
                         filteredTrades :=
                           replace_first (\<lambda>t. tid t = Some k) updatedTrade (filteredTrades j1)\<rparr>))))"

definition deleteTrade_r2 :: "nat \<Rightarrow> bool \<Rightarrow> bool \<Rightarrow> bool \<Rightarrow> journal \<Rightarrow> journal" where
  \<comment> \<open>part_000 lines 2143-2172. The balance is adjusted from the stored trade before
      \<open>db.delete\<close> is awaited.\<close>
  "deleteTrade_r2 k confirmed get_ok delete_ok j =
     (if \<not> confirmed then j
      else if \<not> get_ok then j
      else
        (let j1 = (case rows j k of
                     Some t \<Rightarrow> j\<lparr>currentBalance := round_double (currentBalance j - or_zero (net_pl t))\<rparr>
                   | None \<Rightarrow> j)
         in if \<not> delete_ok then j1
            else j1\<lparr>rows := (rows j1)(k := None),
                    trades := filter (\<lambda>t. tid t \<noteq> Some k) (trades j1),
                    filteredTrades := filter (\<lambda>t. tid t \<noteq> Some k) (filteredTrades j1)\<rparr>))"

fun import_loop :: "(nat \<Rightarrow> bool) \<Rightarrow> nat \<Rightarrow> trade list \<Rightarrow> journal \<times> real \<Rightarrow> journal \<times> real" where
  \<comment> \<open>The \<open>for\<close> loop of \<open>commitImport\<close>: \<open>add_ok i\<close> says whether the \<open>i\<close>-th
      \<open>db.add\<close> completes; a trade whose \<open>db.add\<close> throws is left out.\<close>
  "import_loop add_ok i [] (j, pl_sum) = (j, pl_sum)"
| "import_loop add_ok i (t # ts) (j, pl_sum) =
     (if add_ok i then
        (let (t', j1) = db_add t j in
           import_loop add_ok (Suc i) ts
             (j1\<lparr>trades := trades j1 @ [t']\<rparr>, round_double (pl_sum + or_zero (net_pl t'))))
      else import_loop add_ok (Suc i) ts (j, pl_sum))"

definition commitImport :: "(trade list \<Rightarrow> trade list) \<Rightarrow> bool \<Rightarrow> bool \<Rightarrow> bool \<Rightarrow> (nat \<Rightarrow> bool) \<Rightarrow> journal \<Rightarrow> journal" where
  \<comment> \<open>part_000 lines 1793-1850 and app.js lines 412-476.\<close>
  "commitImport srt replace confirmed clear_ok add_ok j =
     (if previewData j = [] then j
      else if replace \<and> \<not> confirmed then j
      else if replace \<and> \<not> clear_ok then j
      else
        (let j0 = (if replace then j\<lparr>rows := (\<lambda>k. None), trades := []\<rparr> else j);
             (j1, pl_sum) = import_loop add_ok 0 (previewData j0) (j0, 0)
         in j1\<lparr>currentBalance := round_double (currentBalance j1 + pl_sum),
                 trades := srt (trades j1),
                 filteredTrades := srt (trades j1),
                 previewData := []\<rparr>))"

definition date_before :: "int option \<Rightarrow> int option \<Rightarrow> bool" where
  \<comment> \<open>\<open>a < b\<close> on two \<open>Date\<close> objects: false when either is an invalid date.\<close>
  "date_before a b = (case (a, b) of (Some x, Some y) \<Rightarrow> x < y | _ \<Rightarrow> False)"

definition passes_filters :: "(string \<Rightarrow> int option) \<Rightarrow> string \<Rightarrow> string \<Rightarrow> string \<Rightarrow> string \<Rightarrow> trade \<Rightarrow> bool" where
  \<comment> \<open>The predicate of \<open>applyFilters\<close>; \<open>dateval\<close> is the time value of \<open>new Date(s)\<close>.\<close>
  "passes_filters dateval tickerFilter strategyFilter dateFrom dateTo t =
     (if tickerFilter \<noteq> [] \<and> ticker t \<noteq> tickerFilter then False
      else if strategyFilter \<noteq> [] \<and> strategy t \<noteq> strategyFilter then False
      else if dateFrom \<noteq> [] \<and> date_before (dateval (date t)) (dateval dateFrom) then False
      else if dateTo \<noteq> [] \<and> date_before (dateval dateTo) (dateval (date t)) then False
      else True)"

definition applyFilters :: "(string \<Rightarrow> int option) \<Rightarrow> string \<Rightarrow> string \<Rightarrow> string \<Rightarrow> string \<Rightarrow> journal \<Rightarrow> journal" where
  \<comment> \<open>part_000 lines 2091-2121.\<close>
  "applyFilters dateval tickerFilter strategyFilter dateFrom dateTo j =
     j\<lparr>filteredTrades :=
         filter (passes_filters dateval tickerFilter strategyFilter dateFrom dateTo) (trades j)\<rparr>"

definition resetFilters :: "journal \<Rightarrow> journal" where
  \<comment> \<open>part_000 lines 2123-2141.\<close>
  "resetFilters j = j\<lparr>filteredTrades := trades j\<rparr>"

section \<open>CSV import and export\<close>

text \<open>
  A row read from a CSV file is a JavaScript object whose keys are the header names. It is
  a map from keys to values; a key that is not there reads as \<open>undefined\<close>, which is
  \<open>None\<close>.
\<close>

datatype jsval = Str string | Num real | NaN | Null

type_synonym obj = "string \<Rightarrow> jsval option"

definition truthy_val :: "jsval \<Rightarrow> bool" where
  "truthy_val v = (case v of Str s \<Rightarrow> s \<noteq> [] | Num x \<Rightarrow> x \<noteq> 0 | NaN \<Rightarrow> False | Null \<Rightarrow> False)"

definition js_truthy :: "jsval option \<Rightarrow> bool" where
  "js_truthy a = (case a of None \<Rightarrow> False | Some v \<Rightarrow> truthy_val v)"

definition js_or :: "jsval option \<Rightarrow> jsval \<Rightarrow> jsval" where
  \<comment> \<open>\<open>a || d\<close> with a default \<open>d\<close> that is a value.\<close>
  "js_or a d = (case a of None \<Rightarrow> d | Some v \<Rightarrow> if truthy_val v then v else d)"

definition num :: "real option \<Rightarrow> jsval" where
  "num x = (case x of None \<Rightarrow> NaN | Some v \<Rightarrow> Num v)"

definition parseFloat_val :: "jsval \<Rightarrow> jsval" where
  \<comment> \<open>\<open>parseFloat\<close> of a value: a number is printed and read back, which gives the
      number again; \<open>null\<close> prints as text that is not a number.\<close>
  "parseFloat_val v = (case v of Str s \<Rightarrow> num (parseFloat s) | Num x \<Rightarrow> Num x | NaN \<Rightarrow> NaN | Null \<Rightarrow> NaN)"

definition parseInt_val :: "jsval \<Rightarrow> jsval" where
  \<comment> \<open>\<open>parseInt\<close> of a value; the only number the code passes is the default \<open>1\<close>, and
      a number read back as an integer loses its fraction.\<close>
  "parseInt_val v =
     (case v of
        Str s \<Rightarrow> num (map_option real_of_int (parseInt s))
      | Num x \<Rightarrow> Num (real_of_int (if x \<ge> 0 then \<lfloor>x\<rfloor> else \<lceil>x\<rceil>))
      | NaN \<Rightarrow> NaN
      | Null \<Rightarrow> NaN)"

definition ge_zero :: "jsval option \<Rightarrow> bool" where
  \<comment> \<open>\<open>trade.net_pl >= 0\<close> once \<open>net_pl\<close> is a number or \<open>NaN\<close>.\<close>
  "ge_zero a = (case a of Some (Num x) \<Rightarrow> x \<ge> 0 | _ \<Rightarrow> False)"

subsection \<open>Splitting a line into fields\<close>

fun csv_scan :: "string list \<Rightarrow> string \<Rightarrow> bool \<Rightarrow> string \<Rightarrow> string list" where
  \<comment> \<open>The loop of \<open>parseCSVLine\<close> on \<open>result\<close>, \<open>current\<close> and \<open>inQuotes\<close>.\<close>
  "csv_scan result current inQuotes [] = result @ [trim current]"
| "csv_scan result current inQuotes (c # cs) =
     (if c = CHR 0x22 then csv_scan result current (\<not> inQuotes) cs
      else if c = CHR '','' \<and> \<not> inQuotes then csv_scan (result @ [trim current]) [] inQuotes cs
      else csv_scan result (current @ [c]) inQuotes cs)"

definition parseCSVLine :: "string \<Rightarrow> string list" where
  \<comment> \<open>part_000 lines 1645-1665; part_001 lines 572-590 and part_002 lines 283-303 are the
      same function.\<close>
  "parseCSVLine line = csv_scan [] [] False line"

fun csv_scan_fn :: "string list \<Rightarrow> string \<Rightarrow> bool \<Rightarrow> string \<Rightarrow> string list" where
  \<comment> \<open>The loop of the function-based \<open>parseCSVLine\<close>: a doubled quote inside quotes is
      one quote of the field, and fields are not trimmed.\<close>
  "csv_scan_fn result current inQuotes [] = result @ [current]"
| "csv_scan_fn result current inQuotes [c] =
     (if c = CHR 0x22 then csv_scan_fn result current (\<not> inQuotes) []
      else if c = CHR '','' \<and> \<not> inQuotes then csv_scan_fn (result @ [current]) [] inQuotes []
      else csv_scan_fn result (current @ [c]) inQuotes [])"
| "csv_scan_fn result current inQuotes (c # d # cs) =
     (if c = CHR 0x22 \<and> inQuotes \<and> d = CHR 0x22
      then csv_scan_fn result (current @ [CHR 0x22]) inQuotes cs
      else if c = CHR 0x22 then csv_scan_fn result current (\<not> inQuotes) (d # cs)
      else if c = CHR '','' \<and> \<not> inQuotes
      then csv_scan_fn (result @ [current]) [] inQuotes (d # cs)
      else csv_scan_fn result (current @ [c]) inQuotes (d # cs))"

definition parseCSVLine_fn :: "string \<Rightarrow> string list" where
  \<comment> \<open>part_002 lines 2458-2482.\<close>
  "parseCSVLine_fn line = csv_scan_fn [] [] False line"

definition split_row_app :: "string \<Rightarrow> string list" where
  \<comment> \<open>app.js line 317: \<open>lines[i].split(',').map(v => v.trim().replace(/"/g, ''))\<close>\<close>
  "split_row_app line = map (\<lambda>v. strip_quotes (trim v)) (split CHR '','' line)"

definition csv_lines :: "string \<Rightarrow> string list" where
  \<comment> \<open>\<open>csvContent.split('\n').map(line => line.trim()).filter(line => line)\<close>\<close>
  "csv_lines csvContent = filter (\<lambda>line. line \<noteq> []) (map trim (split CHR 0x0A csvContent))"

subsection \<open>The normalizer of revision r2 (part_000 lines 1667-1737, part_001 lines 592-653)\<close>

definition row_object :: "string list \<Rightarrow> string list \<Rightarrow> obj" where
  \<comment> \<open>The values are padded with empty strings up to the number of headers; a header that
      occurs twice keeps its last value.\<close>
  "row_object headers vals =
     fold (\<lambda>(h, v) t. t(h \<mapsto> Str v))
       (zip headers (vals @ replicate (length headers - length vals) [])) Map.empty"

definition row_valid :: "obj \<Rightarrow> bool" where
  \<comment> \<open>Not \<open>!trade.date || !trade.ticker\<close>.\<close>
  "row_valid t = (js_truthy (t ''date'') \<and> js_truthy (t ''ticker''))"

text \<open>The assignments of lines 1707-1717, one definition for each.\<close>

definition parse_net_pl :: "obj \<Rightarrow> obj" where
  \<comment> \<open>\<open>trade.net_pl = parseFloat(trade.net_pl || trade.net_p_l || 0)\<close>\<close>
  "parse_net_pl t = t(''net_pl'' \<mapsto> parseFloat_val (js_or (t ''net_pl'') (js_or (t ''net_p_l'') (Num 0))))"

definition parse_premium :: "obj \<Rightarrow> obj" where
  \<comment> \<open>\<open>trade.premium = parseFloat(trade.premium || 0)\<close>\<close>
  "parse_premium t = t(''premium'' \<mapsto> parseFloat_val (js_or (t ''premium'') (Num 0)))"

definition parse_fees :: "obj \<Rightarrow> obj" where
  \<comment> \<open>\<open>trade.fees = parseFloat(trade.fees || -0.65)\<close>\<close>
  "parse_fees t = t(''fees'' \<mapsto> parseFloat_val (js_or (t ''fees'') (Num (- 0.65))))"

definition parse_quantity :: "obj \<Rightarrow> obj" where
  \<comment> \<open>\<open>trade.quantity = parseInt(trade.quantity || 1)\<close>\<close>
  "parse_quantity t = t(''quantity'' \<mapsto> parseInt_val (js_or (t ''quantity'') (Num 1)))"

definition parse_price :: "string \<Rightarrow> obj \<Rightarrow> obj" where
  \<comment> \<open>\<open>trade.entry_price = trade.entry_price ? parseFloat(trade.entry_price) : null\<close>, and
      the same for the exit price.\<close>
  "parse_price k t =
     t(k \<mapsto> (case t k of Some v \<Rightarrow> if truthy_val v then parseFloat_val v else Null | None \<Rightarrow> Null))"

definition upper_ticker :: "obj \<Rightarrow> obj" where
  \<comment> \<open>\<open>trade.ticker = trade.ticker.toUpperCase()\<close>; the ticker of a row that passed the
      check is a string that is not empty.\<close>
  "upper_ticker t = (case t ''ticker'' of Some (Str s) \<Rightarrow> t(''ticker'' \<mapsto> Str (toUpperCase s)) | _ \<Rightarrow> t)"

definition default_strategy :: "obj \<Rightarrow> obj" where
  \<comment> \<open>\<open>trade.strategy = trade.strategy || 'Unknown'\<close>\<close>
  "default_strategy t = t(''strategy'' \<mapsto> js_or (t ''strategy'') (Str ''Unknown''))"

definition default_outcome :: "obj \<Rightarrow> obj" where
  \<comment> \<open>\<open>trade.outcome = trade.outcome || ((trade.net_pl >= 0) ? 'Win' : 'Loss')\<close>\<close>
  "default_outcome t =
     t(''outcome'' \<mapsto> js_or (t ''outcome'') (Str (if ge_zero (t ''net_pl'') then ''Win'' else ''Loss'')))"

definition stamp :: "string \<Rightarrow> obj \<Rightarrow> obj" where
  \<comment> \<open>\<open>trade.created_at = new Date().toISOString()\<close>, the time stamp being \<open>now\<close>.\<close>
  "stamp now t = t(''created_at'' \<mapsto> Str now)"

definition normalize_r2 :: "string \<Rightarrow> obj \<Rightarrow> obj" where
  "normalize_r2 now t =
     stamp now (default_outcome (default_strategy (upper_ticker
       (parse_price ''exit_price'' (parse_price ''entry_price''
          (parse_quantity (parse_fees (parse_premium (parse_net_pl t)))))))))"

fun rows_loop_r2 :: "string \<Rightarrow> string list \<Rightarrow> string list \<Rightarrow> obj list \<times> nat \<Rightarrow> obj list \<times> nat" where
  \<comment> \<open>The \<open>for\<close> loop over the data lines, on \<open>trades\<close> and \<open>skipped\<close>.\<close>
  "rows_loop_r2 now headers [] acc = acc"
| "rows_loop_r2 now headers (line # rest) (parsed, skipped) =
     (let t = row_object headers (parseCSVLine line) in
        if \<not> js_truthy (t ''date'') then rows_loop_r2 now headers rest (parsed, Suc skipped)
        else if \<not> js_truthy (t ''ticker'') then rows_loop_r2 now headers rest (parsed, Suc skipped)
        else rows_loop_r2 now headers rest (parsed @ [normalize_r2 now t], skipped))"

definition headers_r2 :: "string \<Rightarrow> string list" where
  "headers_r2 line = map (\<lambda>h. spaces_to_underscore (toLowerCase h)) (parseCSVLine line)"

definition parseCSV_r2 :: "string \<Rightarrow> string \<Rightarrow> (obj list \<times> nat) option" where
  \<comment> \<open>\<open>None\<close> is the error for a file without a header and a data row. Otherwise the
      result is the list \<open>trades\<close> and the count \<open>skipped\<close> that the function logs; the
      list becomes \<open>previewData\<close> unless it is empty.\<close>
  "parseCSV_r2 now csvContent =
     (case csv_lines csvContent of
        [] \<Rightarrow> None
      | [h] \<Rightarrow> None
      | h # rest \<Rightarrow> Some (rows_loop_r2 now (headers_r2 h) rest ([], 0)))"

subsection \<open>The normalizer of app.js (lines 301-356)\<close>

definition headers_app :: "string \<Rightarrow> string list" where
  "headers_app line =
     map (\<lambda>h. spaces_to_underscore (toLowerCase (strip_quotes (trim h)))) (split CHR '','' line)"

definition row_object_app :: "string list \<Rightarrow> string list \<Rightarrow> obj" where
  "row_object_app headers vals = fold (\<lambda>(h, v) t. t(h \<mapsto> Str v)) (zip headers vals) Map.empty"

definition derive_outcome :: "obj \<Rightarrow> obj" where
  \<comment> \<open>\<open>trade.outcome = (trade.net_pl >= 0) ? 'Win' : 'Loss'\<close>\<close>
  "derive_outcome t = t(''outcome'' \<mapsto> Str (if ge_zero (t ''net_pl'') then ''Win'' else ''Loss''))"

definition normalize_app :: "string \<Rightarrow> obj \<Rightarrow> obj" where
  \<comment> \<open>The assignments of lines 329-336: the prices stay as they were read, and the outcome
      always follows the sign of the P&L.\<close>
  "normalize_app now t =
     stamp now (derive_outcome (default_strategy (upper_ticker
       (parse_quantity (parse_fees (parse_premium (parse_net_pl t)))))))"

fun rows_loop_app :: "string \<Rightarrow> string list \<Rightarrow> string list \<Rightarrow> obj list \<Rightarrow> obj list" where
  \<comment> \<open>A line whose number of fields is not the number of headers is passed over, and so is
      a row without a date or a ticker; nothing is counted.\<close>
  "rows_loop_app now headers [] parsed = parsed"
| "rows_loop_app now headers (line # rest) parsed =
     (let vals = split_row_app line in
        if length vals \<noteq> length headers then rows_loop_app now headers rest parsed
        else
          (let t = row_object_app headers vals in
             if \<not> js_truthy (t ''date'') \<or> \<not> js_truthy (t ''ticker'')
             then rows_loop_app now headers rest parsed
             else rows_loop_app now headers rest (parsed @ [normalize_app now t])))"

definition parseCSV_app :: "string \<Rightarrow> string \<Rightarrow> obj list option" where
  "parseCSV_app now csvContent =
     (case csv_lines csvContent of
        [] \<Rightarrow> None
      | [h] \<Rightarrow> None
      | h # rest \<Rightarrow> Some (rows_loop_app now (headers_app h) rest []))"

subsection \<open>The import of the function-based revision (part_002 lines 2439-2582)\<close>

definition parseCSV_fn :: "string \<Rightarrow> string list \<times> (string \<Rightarrow> string option) list" where
  \<comment> \<open>The headers as they are written, and one object of strings for each line that is not
      blank.\<close>
  "parseCSV_fn csvText =
     (case split CHR 0x0A (trim csvText) of
        [] \<Rightarrow> ([], [])
      | h # rest \<Rightarrow>
          (let headers = parseCSVLine_fn h in
             (headers,
              map (\<lambda>line. fold (\<lambda>(i, hd) row.
                                   row(hd \<mapsto> (if i < length (parseCSVLine_fn line)
                                               then parseCSVLine_fn line ! i else [])))
                            (zip [0..<length headers] headers) Map.empty)
                  (filter (\<lambda>line. trim line \<noteq> []) rest))))"

definition str_or :: "string option \<Rightarrow> string option \<Rightarrow> string" where
  \<comment> \<open>\<open>a || b\<close> on two texts that may be \<open>undefined\<close>; \<open>undefined\<close> and the empty text
      are both falsy and both read as the empty text.\<close>
  "str_or a b =
     (case a of
        Some s \<Rightarrow> if s \<noteq> [] then s else (case b of Some s' \<Rightarrow> s' | None \<Rightarrow> [])
      | None \<Rightarrow> (case b of Some s' \<Rightarrow> s' | None \<Rightarrow> []))"

definition str_default :: "string \<Rightarrow> string \<Rightarrow> string" where
  "str_default s d = (if s \<noteq> [] then s else d)"

definition csv_trade_fn :: "(string \<Rightarrow> string option) \<Rightarrow> trade" where
  \<comment> \<open>The \<open>tradeData\<close> of \<open>importCSV\<close>, lines 2536-2557.\<close>
  "csv_trade_fn row =
     \<lparr>tid = None,
      date = str_or (row ''date'') (row ''Date''),
      ticker = toUpperCase (str_or (row ''ticker'') (row ''Ticker'')),
      strategy = str_or (row ''strategy'') (row ''Strategy''),
      quantity = or_one (parseInt (str_or (row ''quantity'') (row ''Quantity''))),
      entry_price = Some (or_zero (parseFloat (str_or (row ''entry_price'') (row ''EntryPrice'')))),
      exit_price = or_null (parseFloat (str_or (row ''exit_price'') (row ''ExitPrice''))),
      premium = or_zero (parseFloat (str_or (row ''premium'') (row ''Premium''))),
      fees = or_zero (parseFloat (str_or (row ''fees'') (row ''Fees''))),
      net_pl = Some (or_zero (parseFloat
                 (str_default (str_or (row ''net_pl'') (row ''NetPL'')) (str_or (row ''PL'') None)))),
      outcome = str_default (str_or (row ''outcome'') (row ''Outcome'')) ''Win''\<rparr>"

definition accepted_fn :: "trade \<Rightarrow> bool" where
  \<comment> \<open>\<open>tradeData.date && tradeData.ticker && tradeData.strategy\<close>\<close>
  "accepted_fn t = (date t \<noteq> [] \<and> ticker t \<noteq> [] \<and> strategy t \<noteq> [])"

subsection \<open>The export of part_001 (lines 762-831)\<close>

function nat_to_string :: "nat \<Rightarrow> string" where
  "nat_to_string n =
     (if n < 10 then [char_of (48 + n)]
      else nat_to_string (n div 10) @ [char_of (48 + n mod 10)])"
  by pat_completeness auto
termination
  by (relation "measure id") auto

definition num_to_string :: "(real \<Rightarrow> string) \<Rightarrow> real \<Rightarrow> string" where
  \<comment> \<open>How a number is printed when an array is joined. An integer is printed in decimal
      digits (below \<open>10^21\<close>, where JavaScript changes to the exponent form). The digits of a
      number with a fraction depend on the double that stands for it; they are the
      parameter \<open>fmt\<close>.\<close>
  "num_to_string fmt x =
     (if x = real_of_int \<lfloor>x\<rfloor> then
        (if x < 0 then CHR ''-'' # nat_to_string (nat (- \<lfloor>x\<rfloor>)) else nat_to_string (nat \<lfloor>x\<rfloor>))
      else fmt x)"

definition field_text :: "(real \<Rightarrow> string) \<Rightarrow> jsval \<Rightarrow> string" where
  \<comment> \<open>An element of the row in \<open>row.join(',')\<close>; \<open>null\<close> joins as the empty text.\<close>
  "field_text fmt v =
     (case v of Str s \<Rightarrow> s | Num x \<Rightarrow> num_to_string fmt x | NaN \<Rightarrow> ''NaN'' | Null \<Rightarrow> [])"

definition double_quotes :: "string \<Rightarrow> string" where
  \<comment> \<open>\<open>s.replace(/"/g, '""')\<close>\<close>
  "double_quotes s = concat (map (\<lambda>c. if c = CHR 0x22 then [CHR 0x22, CHR 0x22] else [c]) s)"

definition quoted_text :: "jsval option \<Rightarrow> string option" where
  \<comment> \<open>The notes columns: the text, its quotes doubled, between quotes. A value that is
      truthy and not a string has no \<open>replace\<close>; the call throws (\<open>None\<close>).\<close>
  "quoted_text a =
     (case js_or a (Str []) of
        Str s \<Rightarrow> Some ([CHR 0x22] @ double_quotes s @ [CHR 0x22])
      | _ \<Rightarrow> None)"

definition join_comma :: "string list \<Rightarrow> string" where
  "join_comma xs = (case xs of [] \<Rightarrow> [] | x # r \<Rightarrow> foldl (\<lambda>a b. a @ CHR '','' # b) x r)"

definition export_headers_p1 :: "string list" where
  "export_headers_p1 =
     [''Date'', ''Ticker'', ''Strategy'', ''Option Type'', ''Strike'', ''Expiration'',
      ''Quantity'', ''Entry Price'', ''Exit Price'', ''Premium'', ''Fees'', ''Net P&L'',
      ''Outcome'', ''Delta'', ''Gamma'', ''Theta'', ''Vega'',
      ''Trade Notes'', ''Post-Trade Analysis'', ''Created At'']"

definition export_row_p1 :: "(real \<Rightarrow> string) \<Rightarrow> obj \<Rightarrow> string option" where
  "export_row_p1 fmt t =
     (case (quoted_text (t ''trade_notes''), quoted_text (t ''post_trade_analysis'')) of
        (Some notes, Some analysis) \<Rightarrow>
          Some (join_comma
            (map (\<lambda>k. field_text fmt (js_or (t k) (Str [])))
               [''date'', ''ticker'', ''strategy'', ''option_type'', ''strike'', ''expiration'',
                ''quantity'', ''entry_price'', ''exit_price'']
             @ map (\<lambda>k. field_text fmt (js_or (t k) (Num 0))) [''premium'', ''fees'', ''net_pl'']
             @ map (\<lambda>k. field_text fmt (js_or (t k) (Str [])))
                 [''outcome'', ''delta'', ''gamma'', ''theta'', ''vega'']
             @ [notes, analysis, field_text fmt (js_or (t ''created_at'') (Str []))]))
      | _ \<Rightarrow> None)"

definition exportToCSV_p1 :: "(real \<Rightarrow> string) \<Rightarrow> obj list \<Rightarrow> string option" where
  \<comment> \<open>The text of the file; \<open>None\<close> when there is no trade to export or a row throws, in
      which cases no file is made.\<close>
  "exportToCSV_p1 fmt ts =
     (if ts = [] then None
      else
        (case those (map (export_row_p1 fmt) ts) of
           None \<Rightarrow> None
         | Some rs \<Rightarrow>
             Some (join_comma export_headers_p1 @ [CHR 0x0A] @ concat (map (\<lambda>r. r @ [CHR 0x0A]) rs))))"

definition import_export_import :: "(real \<Rightarrow> string) \<Rightarrow> string \<Rightarrow> string \<Rightarrow> string \<Rightarrow> obj list option" where
  \<comment> \<open>A file is imported, the trades are exported, and the exported file is imported.
      Committing the import in between gives the trades their keys and sorts them; the
      export writes no key, and the order of one trade is what it is.\<close>
  "import_export_import fmt now now' csvContent =
     (case parseCSV_r2 now csvContent of
        None \<Rightarrow> None
      | Some (ts, skipped) \<Rightarrow>
          (case exportToCSV_p1 fmt ts of
             None \<Rightarrow> None
           | Some out \<Rightarrow> map_option fst (parseCSV_r2 now' out)))"

section \<open>Portfolio metrics\<close>

text \<open>
  \<open>calculatePortfolioMetrics\<close> of revision \<open>r1\<close> (part_000 lines 909-962) reads the
  balances of the portfolio history in their stored order. A drawdown divides by the
  peak; where the peak is 0 JavaScript gives \<open>Infinity\<close> or \<open>NaN\<close>, and
  \<open>Math.max\<close> keeps a value that is not finite from then on: \<open>None\<close> stands for it.
\<close>

record portfolio_metrics =
  pm_totalReturn :: real
  pm_returnPercentage :: real
  pm_maxDrawdown :: "real option"
  pm_maxBalance :: real
  pm_minBalance :: real
  pm_sharpeRatio :: real
  pm_tradingDays :: nat
  pm_avgDailyReturn :: real

fun drawdown_loop :: "real list \<Rightarrow> real \<times> real option \<Rightarrow> real \<times> real option" where
  \<comment> \<open>The \<open>forEach\<close> over the history, on the pair of \<open>peak\<close> and \<open>maxDrawdown\<close>.\<close>
  "drawdown_loop [] st = st"
| "drawdown_loop (b # bs) (peak, maxDrawdown) =
     (let peak' = (if b > peak then b else peak);
          drawdown = (if peak' = 0 then None else Some ((peak' - b) / peak'))
      in drawdown_loop bs
           (peak', (case (maxDrawdown, drawdown) of
                      (Some m, Some d) \<Rightarrow> Some (max m d)
                    | _ \<Rightarrow> None)))"

fun daily_returns :: "real list \<Rightarrow> real list" where
  "daily_returns (prev # cur # rest) =
     (if prev > 0 then (cur - prev) / prev else 0) # daily_returns (cur # rest)"
| "daily_returns _ = []"

definition calculatePortfolioMetrics_r1 :: "real \<Rightarrow> real \<Rightarrow> real list \<Rightarrow> portfolio_metrics" where
  "calculatePortfolioMetrics_r1 startingCapital balance history =
     (let totalReturn = balance - startingCapital;
          returnPercentage = (if startingCapital > 0 then totalReturn / startingCapital else 0);
          dailyReturns = daily_returns history;
          n = length dailyReturns;
          avgDailyReturn = (if n > 0 then sum_list dailyReturns / real n else 0);
          stdDeviation =
            (if n > 1
             then sqrt (sum_list (map (\<lambda>r. (r - avgDailyReturn) ^ 2) dailyReturns) / real (n - 1))
             else 0)
      in \<lparr>pm_totalReturn = totalReturn,
          pm_returnPercentage = returnPercentage,
          pm_maxDrawdown = snd (drawdown_loop history (startingCapital, Some 0)),
          pm_maxBalance = foldl max startingCapital history,
          pm_minBalance = foldl min startingCapital history,
          pm_sharpeRatio = (if stdDeviation > 0 then (avgDailyReturn / stdDeviation) * sqrt 252 else 0),
          pm_tradingDays = length history,
          pm_avgDailyReturn = avgDailyReturn\<rparr>)"

text \<open>app.js (lines 551-565) reports a maximum drawdown and a Sharpe ratio of 0.\<close>

record portfolio_metrics_app =
  am_totalReturn :: real
  am_returnPercentage :: real
  am_maxDrawdown :: real
  am_maxBalance :: real
  am_sharpeRatio :: real
  am_tradingDays :: nat

definition calculatePortfolioMetrics_app :: "real \<Rightarrow> real \<Rightarrow> real list \<Rightarrow> portfolio_metrics_app" where
  "calculatePortfolioMetrics_app startingCapital balance history =
     (let totalReturn = balance - startingCapital;
          returnPercentage = (if startingCapital > 0 then totalReturn / startingCapital else 0)
      in \<lparr>am_totalReturn = totalReturn, am_returnPercentage = returnPercentage,
          am_maxDrawdown = 0, am_maxBalance = balance, am_sharpeRatio = 0,
          am_tradingDays = length history\<rparr>)"

text \<open>
  The maximum drawdown in the words of the specification: at each point of the history
  the peak is the largest balance so far, the starting capital included, and the drawdown
  is the fall from the peak as a fraction of the peak.
\<close>

definition peak_at :: "real \<Rightarrow> real list \<Rightarrow> nat \<Rightarrow> real" where
  "peak_at start bs i = fold max (take (Suc i) bs) start"

definition drawdown_at :: "real \<Rightarrow> real list \<Rightarrow> nat \<Rightarrow> real" where
  "drawdown_at start bs i = (peak_at start bs i - bs ! i) / peak_at start bs i"

definition spec_max_drawdown :: "real \<Rightarrow> real list \<Rightarrow> real" where
  "spec_max_drawdown start bs = Max (set (map (drawdown_at start bs) [0..<length bs]))"

fun drawdowns :: "real \<Rightarrow> real list \<Rightarrow> real list" where
  \<comment> \<open>The drawdowns along a history, the peak before it given.\<close>
  "drawdowns peak [] = []"
| "drawdowns peak (b # bs) = ((max peak b - b) / max peak b) # drawdowns (max peak b) bs"

section \<open>The reachable states of the journal\<close>

text \<open>
  A journal starts with empty arrays over whatever the IndexedDB store holds; the store
  keeps each trade under the key that is the trade's \<open>id\<close>, and its key generator is
  past every key. From there the user loads the data, adds, edits and deletes trades,
  parses a CSV file into the preview, commits the preview, applies filters and resets
  them, in any order and with any outcome of the dialogs and the IndexedDB calls.
\<close>

definition store_ok :: "journal \<Rightarrow> bool" where
  "store_ok j =
     ((\<forall>k t. rows j k = Some t \<longrightarrow> tid t = Some k) \<and> (\<forall>k. rows j k \<noteq> None \<longrightarrow> k < keygen j))"

inductive reachable :: "(trade list \<Rightarrow> trade list) \<Rightarrow> (string \<Rightarrow> int option) \<Rightarrow> journal \<Rightarrow> bool"
  for srt :: "trade list \<Rightarrow> trade list" and dateval :: "string \<Rightarrow> int option" where
  constructed:
    "trades j = [] \<Longrightarrow> filteredTrades j = [] \<Longrightarrow> store_ok j \<Longrightarrow> reachable srt dateval j"
| loaded:
    "reachable srt dateval j \<Longrightarrow> reachable srt dateval (loadAllData srt getAll_ok j)"
| added:
    "reachable srt dateval j \<Longrightarrow> reachable srt dateval (handleAddTrade_r2 f add_ok j)"
| edited:
    "reachable srt dateval j \<Longrightarrow> reachable srt dateval (handleEditTrade_r2 k f get_ok put_ok j)"
| deleted:
    "reachable srt dateval j \<Longrightarrow>
     reachable srt dateval (deleteTrade_r2 k confirmed get_ok delete_ok j)"
| previewed:
    "reachable srt dateval j \<Longrightarrow> reachable srt dateval (j\<lparr>previewData := parsed\<rparr>)"
| committed:
    "reachable srt dateval j \<Longrightarrow>
     reachable srt dateval (commitImport srt replace confirmed clear_ok add_ok j)"
| filtered:
    "reachable srt dateval j \<Longrightarrow>
     reachable srt dateval (applyFilters dateval tickerFilter strategyFilter dateFrom dateTo j)"
| reset:
    "reachable srt dateval j \<Longrightarrow> reachable srt dateval (resetFilters j)"

definition keyed :: "journal \<Rightarrow> bool" where
  \<comment> \<open>The trades in memory have keys of their own, all handed out by the key generator,
      and every stored trade carries its key.\<close>
  "keyed j =
     (distinct (map tid (trades j))
      \<and> (\<forall>t\<in>set (trades j). \<exists>k<keygen j. tid t = Some k)
      \<and> (\<forall>k t. rows j k = Some t \<longrightarrow> tid t = Some k))"

section \<open>Example inputs\<close>

definition sample_trade :: "real option \<Rightarrow> string \<Rightarrow> trade" where
  "sample_trade pl oc =
     \<lparr>tid = None, date = ''2024-01-02'', ticker = ''AAPL'', strategy = ''Long Call'',
      quantity = 1, entry_price = None, exit_price = None, premium = 0, fees = 0,
      net_pl = pl, outcome = oc\<rparr>"


definition empty_journal :: journal where
  "empty_journal =
     \<lparr>rows = (\<lambda>k. None), keygen = 1, trades = [], filteredTrades = [],
      currentBalance = 1000, previewData = []\<rparr>"

definition sample_form :: trade_form where
  \<comment> \<open>The trade of the specification: entry 100, exit 110, quantity 2, premium 0, fees -1.\<close>
  "sample_form =
     \<lparr>f_date = ''2024-01-02'', f_ticker = ''aapl'', f_strategy = ''Long Call'',
      f_quantity = ''2'', f_entry_price = ''100'', f_exit_price = ''110'',
      f_premium = ''0'', f_fees = ''-1''\<rparr>"

definition text_of_lines :: "string list \<Rightarrow> string" where
  \<comment> \<open>A file with the given lines.\<close>
  "text_of_lines ls = concat (map (\<lambda>l. l @ [CHR 0x0A]) ls)"

definition profit_csv :: string where
  \<comment> \<open>One trade that made 50.\<close>
  "profit_csv = text_of_lines [''date,ticker,fees,net_pl'', ''2024-01-02,AAPL,-1,50'']"

definition quoted_comma_csv :: string where
  \<comment> \<open>A strategy with a comma, written between quotes.\<close>
  "quoted_comma_csv =
     text_of_lines [''date,ticker,strategy'', ''2024-01-02,AAPL,\"Covered Call, rolled\"'']"

definition short_row_csv :: string where
  \<comment> \<open>The first data row stops after the ticker.\<close>
  "short_row_csv =
     text_of_lines [''date,ticker,strategy'', ''2024-01-02,AAPL'', ''2024-01-03,MSFT,Put'']"

definition loss_csv :: string where
  \<comment> \<open>A losing trade, with no column for the fees or the outcome.\<close>
  "loss_csv = text_of_lines [''date,ticker,strategy,net_pl'', ''2024-01-02,aapl,Put,-5'']"

definition quote_field :: "string \<Rightarrow> string" where
  \<comment> \<open>A field written between double quotes.\<close>
  "quote_field f = [CHR 0x22] @ f @ [CHR 0x22]"

definition quote_field_fn :: "string \<Rightarrow> string" where
  \<comment> \<open>A field written between double quotes, its own quotes doubled.\<close>
  "quote_field_fn f = [CHR 0x22] @ double_quotes f @ [CHR 0x22]"

fun join_fields :: "string list \<Rightarrow> string" where
  \<comment> \<open>The fields of a line with commas between them.\<close>
  "join_fields [] = []"
| "join_fields [f] = f"
| "join_fields (f # g # fs) = f @ CHR '','' # join_fields (g # fs)"

definition data_rows_r2 :: "string \<Rightarrow> string list \<Rightarrow> obj list" where
  \<comment> \<open>The objects of the data lines under the header line \<open>h\<close>, in revision \<open>r2\<close>.\<close>
  "data_rows_r2 h ls = map (\<lambda>l. row_object (headers_r2 h) (parseCSVLine l)) ls"

definition data_rows_app :: "string \<Rightarrow> string list \<Rightarrow> obj list" where
  \<comment> \<open>The same in app.js, where only the lines with as many fields as there are headers
      become objects.\<close>
  "data_rows_app h ls =
     map (\<lambda>l. row_object_app (headers_app h) (split_row_app l))
       (filter (\<lambda>l. length (split_row_app l) = length (headers_app h)) ls)"

definition sample_row :: obj where
  \<comment> \<open>A row with a date, a ticker and a net P&L, and nothing else.\<close>
  "sample_row = row_object [''date'', ''ticker'', ''net_pl''] [''2024-01-02'', ''aapl'', ''-5'']"



definition fees_only_form :: trade_form where
  \<comment> \<open>A trade with no prices and no premium, and fees of 1.\<close>
  "fees_only_form =
     \<lparr>f_date = ''2024-01-02'', f_ticker = ''aapl'', f_strategy = ''Long Call'',
      f_quantity = ''1'', f_entry_price = [], f_exit_price = [],
      f_premium = ''0'', f_fees = ''-1''\<rparr>"

definition worthless_form :: trade_form where
  \<comment> \<open>Two contracts bought at 100 that expire at 0, with a premium of 5 and fees of 1.\<close>
  "worthless_form =
     \<lparr>f_date = ''2024-01-02'', f_ticker = ''aapl'', f_strategy = ''Long Call'',
      f_quantity = ''2'', f_entry_price = ''100'', f_exit_price = ''0'',
      f_premium = ''5'', f_fees = ''-1''\<rparr>"

definition msft_form :: trade_form where
  \<comment> \<open>The trade of the specification under another ticker.\<close>
  "msft_form = sample_form\<lparr>f_ticker := ''msft''\<rparr>"

definition filtered_journal :: journal where
  \<comment> \<open>The trade of the specification and the same trade under another ticker are added
      to an empty journal, then the history is filtered for the first ticker.\<close>
  "filtered_journal =
     applyFilters (\<lambda>s. None) ''AAPL'' [] [] []
       (handleAddTrade_r2 msft_form True (handleAddTrade_r2 sample_form True empty_journal))"

section \<open>Sums of profit and loss\<close>

lemma foldl_pl: "foldl (\<lambda>sum t. sum + or_zero (net_pl t)) a ts = a + (\<Sum>t\<leftarrow>ts. or_zero (net_pl t))"
  by (induction ts arbitrary: a) simp_all

lemma sum_pl_sum_list: "sum_pl ts = (\<Sum>t\<leftarrow>ts. or_zero (net_pl t))"
  by (simp add: sum_pl_def foldl_pl)

lemma sum_pl_wins_nonneg: "0 \<le> sum_pl (filter (\<lambda>t. or_zero (net_pl t) \<ge> 0) ts)"
  by (induction ts) (simp_all add: sum_pl_sum_list)

lemma sum_pl_losses_neg:
  "filter (\<lambda>t. or_zero (net_pl t) < 0) ts \<noteq> [] \<Longrightarrow>
   sum_pl (filter (\<lambda>t. or_zero (net_pl t) < 0) ts) < 0"
proof (induction ts)
  case Nil
  then show ?case by simp
next
  case (Cons a ts)
  have le: "sum_pl (filter (\<lambda>t. or_zero (net_pl t) < 0) ts) \<le> 0"
    by (induction ts) (simp_all add: sum_pl_sum_list)
  show ?case
  proof (cases "or_zero (net_pl a) < 0")
    case True
    then show ?thesis using le by (simp add: sum_pl_sum_list)
  next
    case False
    then show ?thesis using Cons by simp
  qed
qed

lemma length_filter_ratio: "ts \<noteq> [] \<Longrightarrow> real (length (filter P ts)) / real (length ts) \<le> 1"
  by (simp add: divide_le_eq_1)

lemma length_filter_pct:
  "ts \<noteq> [] \<Longrightarrow> real (length (filter P ts)) * 100 / real (length ts) \<le> 100"
proof -
  assume "ts \<noteq> []"
  then have "real (length (filter P ts)) \<le> real (length ts)" "0 < real (length ts)"
    by simp_all
  then show ?thesis by (simp add: divide_le_eq)
qed

section \<open>C2: total P&L and win rate\<close>

text \<open>
  C2, as the code has it. In both aggregators the total P&L is the sum of the trades'
  net P&L (a \<open>NaN\<close> or missing one counting as 0) and the win rate of no trades is 0.
  In app.js the win rate is a fraction between 0 and 1; in the function-based revision
  (part_002) it is a percentage between 0 and 100.
\<close>

theorem metrics_totalPL_winRate:
  "totalPL (calculateMetrics ts) = (\<Sum>t\<leftarrow>ts. or_zero (net_pl t))
   \<and> 0 \<le> winRate (calculateMetrics ts) \<and> winRate (calculateMetrics ts) \<le> 1
   \<and> winRate (calculateMetrics []) = 0
   \<and> fn_totalPL (calculateMetrics_fn ts) = (\<Sum>t\<leftarrow>ts. or_zero (net_pl t))
   \<and> 0 \<le> fn_winRate (calculateMetrics_fn ts) \<and> fn_winRate (calculateMetrics_fn ts) \<le> 100
   \<and> fn_winRate (calculateMetrics_fn []) = 0"
proof (cases "ts = []")
  case True
  then show ?thesis by (simp add: calculateMetrics_def calculateMetrics_fn_def)
next
  case False
  have r1: "real (length (filter (\<lambda>t. or_zero (net_pl t) \<ge> 0) ts)) / real (length ts) \<le> 1"
    using False by (rule length_filter_ratio)
  have r3: "real (length (filter (\<lambda>t. outcome t = ''Win'') ts)) * 100 / real (length ts) \<le> 100"
    using False by (rule length_filter_pct)
  show ?thesis using False r1 r3
    by (simp add: calculateMetrics_def calculateMetrics_fn_def Let_def sum_pl_sum_list)
qed

text \<open>
  C2 as stated fails on the function-based aggregator: one winning trade gives a win rate
  of 100, which is not in the interval from 0 to 1.
\<close>

theorem winRate_percent_counterexample:
  "\<not> (fn_winRate (calculateMetrics_fn [sample_trade (Some 10) ''Win'']) \<le> 1)"
  by (simp add: calculateMetrics_fn_def sample_trade_def Let_def)

section \<open>C6: the profit factor\<close>

text \<open>
  C6, as the code has it. In app.js the losses are the trades with a negative net P&L:
  when there are any, their sum is negative and the profit factor is the gross wins over
  its absolute value; when there are none it is 999 if there is a winning trade and 0
  otherwise; it is never negative. In the function-based revision wins and losses are
  told by the stored outcome: the profit factor is the gross wins over the absolute gross
  losses when that is positive, and otherwise 999 if the gross wins are positive and 0 if
  not, so it is not negative when the losses sum to zero.
\<close>

theorem profitFactor_cases:
  "profitFactor (calculateMetrics ts) =
     (if filter (\<lambda>t. or_zero (net_pl t) < 0) ts \<noteq> []
      then sum_pl (filter (\<lambda>t. or_zero (net_pl t) \<ge> 0) ts)
           / \<bar>sum_pl (filter (\<lambda>t. or_zero (net_pl t) < 0) ts)\<bar>
      else if filter (\<lambda>t. or_zero (net_pl t) \<ge> 0) ts \<noteq> [] then 999 else 0)
   \<and> (filter (\<lambda>t. or_zero (net_pl t) < 0) ts \<noteq> []
        \<longrightarrow> sum_pl (filter (\<lambda>t. or_zero (net_pl t) < 0) ts) < 0)
   \<and> 0 \<le> profitFactor (calculateMetrics ts)
   \<and> fn_profitFactor (calculateMetrics_fn ts) =
     (if \<bar>sum_pl (filter (\<lambda>t. outcome t = ''Loss'') ts)\<bar> > 0
      then sum_pl (filter (\<lambda>t. outcome t = ''Win'') ts)
           / \<bar>sum_pl (filter (\<lambda>t. outcome t = ''Loss'') ts)\<bar>
      else if sum_pl (filter (\<lambda>t. outcome t = ''Win'') ts) > 0 then 999 else 0)
   \<and> (sum_pl (filter (\<lambda>t. outcome t = ''Loss'') ts) = 0
        \<longrightarrow> 0 \<le> fn_profitFactor (calculateMetrics_fn ts))"
proof -
  let ?W = "filter (\<lambda>t. or_zero (net_pl t) \<ge> 0) ts"
  let ?L = "filter (\<lambda>t. or_zero (net_pl t) < 0) ts"
  have w: "0 \<le> sum_pl ?W" by (rule sum_pl_wins_nonneg)
  have l: "?L \<noteq> [] \<longrightarrow> sum_pl ?L < 0" using sum_pl_losses_neg by blast
  have a: "profitFactor (calculateMetrics ts) =
     (if ?L \<noteq> [] then sum_pl ?W / \<bar>sum_pl ?L\<bar> else if ?W \<noteq> [] then 999 else 0)"
    by (cases "ts = []") (simp_all add: calculateMetrics_def Let_def)
  have nn: "0 \<le> profitFactor (calculateMetrics ts)"
    unfolding a using w by simp
  have b: "fn_profitFactor (calculateMetrics_fn ts) =
     (if \<bar>sum_pl (filter (\<lambda>t. outcome t = ''Loss'') ts)\<bar> > 0
      then sum_pl (filter (\<lambda>t. outcome t = ''Win'') ts)
           / \<bar>sum_pl (filter (\<lambda>t. outcome t = ''Loss'') ts)\<bar>
      else if sum_pl (filter (\<lambda>t. outcome t = ''Win'') ts) > 0 then 999 else 0)"
    by (cases "ts = []") (simp_all add: calculateMetrics_fn_def Let_def sum_pl_def)
  have c: "sum_pl (filter (\<lambda>t. outcome t = ''Loss'') ts) = 0
           \<longrightarrow> 0 \<le> fn_profitFactor (calculateMetrics_fn ts)"
    unfolding b by simp
  show ?thesis using a l nn b c by blast
qed

theorem profitFactor_cases_witness:
  "profitFactor (calculateMetrics [sample_trade (Some 30) ''Win'', sample_trade (Some (- 10)) ''Loss'']) = 3
   \<and> fn_profitFactor (calculateMetrics_fn [sample_trade (Some 30) ''Win'', sample_trade (Some (- 10)) ''Loss'']) = 3
   \<and> profitFactor (calculateMetrics [sample_trade (Some 30) ''Win'']) = 999
   \<and> fn_profitFactor (calculateMetrics_fn [sample_trade (Some 30) ''Win'']) = 999"
  using profitFactor_cases [of "[sample_trade (Some 30) ''Win'', sample_trade (Some (- 10)) ''Loss'']"]
    profitFactor_cases [of "[sample_trade (Some 30) ''Win'']"]
  by (simp add: sample_trade_def sum_pl_def or_zero_def)

text \<open>
  C6 as stated fails on the function-based aggregator: a trade recorded as a win that
  broke even is a winning trade, no loss is recorded, and the profit factor is 0, not 999.
\<close>

theorem profitFactor_breakeven_counterexample:
  "filter (\<lambda>t. outcome t = ''Win'') [sample_trade (Some 0) ''Win''] \<noteq> []
   \<and> sum_pl (filter (\<lambda>t. outcome t = ''Loss'') [sample_trade (Some 0) ''Win'']) = 0
   \<and> fn_profitFactor (calculateMetrics_fn [sample_trade (Some 0) ''Win'']) \<noteq> 999"
  by (simp add: calculateMetrics_fn_def sample_trade_def Let_def sum_pl_def or_zero_def)

section \<open>C3: deleting a trade and the balance\<close>





section \<open>C1: the net P&L of a trade\<close>

lemma parse_sample_numbers:
  "parseFloat ''100'' = Some 100" "parseFloat ''110'' = Some 110"
  "parseFloat ''0'' = Some 0" "parseFloat ''-1'' = Some (- 1)" "parseInt ''2'' = Some 2"
  "parseFloat ''5'' = Some 5" "parseInt ''1'' = Some 1" "parseFloat [] = None"
  by (simp_all add: parseFloat_def parseInt_def read_unsigned_def read_int_def is_space_def
      is_digit_def digits_val_def digit_val_def)

text \<open>
  C1, as the code has it. For the trade with entry price 100, exit price 110, quantity 2,
  premium 0 and fees -1, the add and edit handlers of revision \<open>r1\<close> produce a net P&L of
  19 and the outcome Win. In that revision, when both price fields hold a number that is
  not zero the net P&L is the price difference times the quantity plus premium plus fees;
  when a price field holds no number it is premium plus fees if the premium is not zero and
  0 if it is; the outcome is Win when the net P&L is not negative and Loss when it is.
  The add and edit handlers of revision \<open>r2\<close> take premium plus fees whatever the
  prices are, and produce -1 and Loss for the trade above. A price of zero is left aside.
\<close>

theorem net_pl_of_sample_trade:
  "net_pl (form_trade_r1 sample_form) = Some 19
   \<and> outcome (form_trade_r1 sample_form) = ''Win''
   \<and> net_pl (edit_trade_r1 old sample_form) = Some 19
   \<and> outcome (edit_trade_r1 old sample_form) = ''Win''
   \<and> (parseFloat (f_entry_price f) = Some e \<and> e \<noteq> 0
        \<and> parseFloat (f_exit_price f) = Some x \<and> x \<noteq> 0 \<longrightarrow>
        net_pl (form_trade_r1 f) =
          Some ((x - e) * real_of_int (quantity (form_trade_r1 f))
                + premium (form_trade_r1 f) + fees (form_trade_r1 f)))
   \<and> (parseFloat (f_entry_price f) = None \<or> parseFloat (f_exit_price f) = None \<longrightarrow>
        net_pl (form_trade_r1 f) =
          Some (if premium (form_trade_r1 f) \<noteq> 0
                then premium (form_trade_r1 f) + fees (form_trade_r1 f) else 0))
   \<and> (\<exists>v. net_pl (form_trade_r1 f) = Some v
            \<and> outcome (form_trade_r1 f) = (if 0 \<le> v then ''Win'' else ''Loss''))
   \<and> net_pl (edit_trade_r1 old f) = net_pl (form_trade_r1 f)
   \<and> outcome (edit_trade_r1 old f) = outcome (form_trade_r1 f)
   \<and> net_pl (form_trade_r2 f) = Some (premium (form_trade_r2 f) + fees (form_trade_r2 f))
   \<and> outcome (form_trade_r2 f)
       = (if 0 \<le> premium (form_trade_r2 f) + fees (form_trade_r2 f) then ''Win'' else ''Loss'')
   \<and> net_pl (edit_trade_r2 k f) = net_pl (form_trade_r2 f)
   \<and> outcome (edit_trade_r2 k f) = outcome (form_trade_r2 f)
   \<and> net_pl (form_trade_r2 sample_form) = Some (- 1)
   \<and> outcome (form_trade_r2 sample_form) = ''Loss''
   \<and> net_pl (edit_trade_r2 k sample_form) = Some (- 1)
   \<and> outcome (edit_trade_r2 k sample_form) = ''Loss''"
proof -
  have r1: "net_pl (form_trade_r1 sample_form) = Some 19"
    "outcome (form_trade_r1 sample_form) = ''Win''"
    by (simp_all add: form_trade_r1_def sample_form_def parse_sample_numbers netPL_r1_def
        truthy_def or_null_def or_zero_def or_one_def outcome_of_def Let_def)
  have e1: "net_pl (edit_trade_r1 old f') = net_pl (form_trade_r1 f')"
    "outcome (edit_trade_r1 old f') = outcome (form_trade_r1 f')" for f'
    by (simp_all add: edit_trade_r1_def)
  have g1: "parseFloat (f_entry_price f) = Some e \<and> e \<noteq> 0
        \<and> parseFloat (f_exit_price f) = Some x \<and> x \<noteq> 0 \<longrightarrow>
        net_pl (form_trade_r1 f) =
          Some ((x - e) * real_of_int (quantity (form_trade_r1 f))
                + premium (form_trade_r1 f) + fees (form_trade_r1 f))"
    by (simp add: form_trade_r1_def netPL_r1_def truthy_def or_null_def Let_def)
  have g2: "parseFloat (f_entry_price f) = None \<or> parseFloat (f_exit_price f) = None \<longrightarrow>
        net_pl (form_trade_r1 f) =
          Some (if premium (form_trade_r1 f) \<noteq> 0
                then premium (form_trade_r1 f) + fees (form_trade_r1 f) else 0)"
    by (auto simp: form_trade_r1_def netPL_r1_def truthy_def or_null_def Let_def
        split: option.splits)
  have g3: "\<exists>v. net_pl (form_trade_r1 f) = Some v
            \<and> outcome (form_trade_r1 f) = (if 0 \<le> v then ''Win'' else ''Loss'')"
    by (simp add: form_trade_r1_def outcome_of_def Let_def)
  have h1: "net_pl (form_trade_r2 f') = Some (premium (form_trade_r2 f') + fees (form_trade_r2 f'))"
    "outcome (form_trade_r2 f')
       = (if 0 \<le> premium (form_trade_r2 f') + fees (form_trade_r2 f') then ''Win'' else ''Loss'')"
    "net_pl (edit_trade_r2 k f') = net_pl (form_trade_r2 f')"
    "outcome (edit_trade_r2 k f') = outcome (form_trade_r2 f')" for f'
    by (simp_all add: form_trade_r2_def edit_trade_r2_def outcome_of_def Let_def)
  have r2: "net_pl (form_trade_r2 sample_form) = Some (- 1)"
    "outcome (form_trade_r2 sample_form) = ''Loss''"
    by (simp_all add: form_trade_r2_def sample_form_def parse_sample_numbers
        or_zero_def outcome_of_def Let_def)
  show ?thesis
    using r1 e1 [of sample_form] e1 [of f] g1 g2 g3 h1 [of f] h1(3,4) [of sample_form] r2
    by simp
qed

theorem net_pl_of_sample_trade_witness:
  "net_pl (form_trade_r1 sample_form) = Some ((110 - 100) * 2 + 0 + (- 1))
   \<and> net_pl (form_trade_r1 fees_only_form) = Some 0
   \<and> outcome (form_trade_r1 fees_only_form) = ''Win''"
proof -
  have p: "parseFloat (f_entry_price sample_form) = Some 100"
    "parseFloat (f_exit_price sample_form) = Some 110"
    "parseFloat (f_entry_price fees_only_form) = None"
    by (simp_all add: sample_form_def fees_only_form_def parse_sample_numbers)
  have q: "quantity (form_trade_r1 sample_form) = 2" "premium (form_trade_r1 sample_form) = 0"
    "fees (form_trade_r1 sample_form) = - 1" "premium (form_trade_r1 fees_only_form) = 0"
    by (simp_all add: form_trade_r1_def sample_form_def fees_only_form_def parse_sample_numbers
        or_zero_def or_one_def Let_def)
  have a: "net_pl (form_trade_r1 sample_form) = Some ((110 - 100) * 2 + 0 + (- 1))"
    using net_pl_of_sample_trade [where f = sample_form and e = 100 and x = 110 and k = 0
        and old = "form_trade_r1 sample_form"]
    by (simp add: p q)
  note t = net_pl_of_sample_trade [where f = fees_only_form and e = 0 and x = 0 and k = 0
      and old = "form_trade_r1 sample_form"]
  have b: "net_pl (form_trade_r1 fees_only_form) = Some 0"
    using t by (simp add: p q)
  have "\<exists>v. net_pl (form_trade_r1 fees_only_form) = Some v
           \<and> outcome (form_trade_r1 fees_only_form) = (if 0 \<le> v then ''Win'' else ''Loss'')"
    using t by blast
  then obtain v where v: "net_pl (form_trade_r1 fees_only_form) = Some v"
    "outcome (form_trade_r1 fees_only_form) = (if 0 \<le> v then ''Win'' else ''Loss'')"
    by blast
  have "v = 0" using b v(1) by simp
  then have c: "outcome (form_trade_r1 fees_only_form) = ''Win''" using v(2) by simp
  show ?thesis using a b c by simp
qed

text \<open>
  C1 as stated fails on revision \<open>r2\<close>: adding the trade of the specification stores a
  trade with a net P&L of -1, not 19, and the outcome Loss, not Win. It fails on revision
  \<open>r1\<close> as well. A trade with no prices, a premium of 0 and fees of -1 gets a net P&L of
  0 and the outcome Win, where premium plus fees is -1. And a trade entered at 100 that
  expires at 0, with quantity 2, premium 5 and fees -1, has both prices and gets premium
  plus fees, 4, and the outcome Win, where the price difference times the quantity plus
  premium plus fees is -196.
\<close>

theorem net_pl_counterexample:
  "map net_pl (trades (handleAddTrade_r2 sample_form True empty_journal)) = [Some (- 1)]
   \<and> map outcome (trades (handleAddTrade_r2 sample_form True empty_journal)) = [''Loss'']
   \<and> map net_pl (trades (handleAddTrade_r2 sample_form True empty_journal)) \<noteq> [Some 19]
   \<and> net_pl (form_trade_r1 fees_only_form) = Some 0
   \<and> outcome (form_trade_r1 fees_only_form) = ''Win''
   \<and> premium (form_trade_r1 fees_only_form) + fees (form_trade_r1 fees_only_form) = - 1
   \<and> net_pl (form_trade_r1 worthless_form) = Some 4
   \<and> outcome (form_trade_r1 worthless_form) = ''Win''
   \<and> parseFloat (f_entry_price worthless_form) = Some 100
   \<and> parseFloat (f_exit_price worthless_form) = Some 0
   \<and> (0 - 100) * real_of_int (quantity (form_trade_r1 worthless_form))
       + premium (form_trade_r1 worthless_form) + fees (form_trade_r1 worthless_form) = - 196"
proof -
  have a: "map net_pl (trades (handleAddTrade_r2 sample_form True empty_journal)) = [Some (- 1)]"
    "map outcome (trades (handleAddTrade_r2 sample_form True empty_journal)) = [''Loss'']"
    by (simp_all add: handleAddTrade_r2_def form_trade_r2_def sample_form_def empty_journal_def
        db_add_def parse_sample_numbers or_zero_def outcome_of_def toUpperCase_def Let_def)
  have b: "net_pl (form_trade_r1 fees_only_form) = Some 0"
    "outcome (form_trade_r1 fees_only_form) = ''Win''"
    "premium (form_trade_r1 fees_only_form) + fees (form_trade_r1 fees_only_form) = - 1"
    by (simp_all add: form_trade_r1_def fees_only_form_def parse_sample_numbers netPL_r1_def
        truthy_def or_null_def or_zero_def or_one_def outcome_of_def Let_def)
  have c: "net_pl (form_trade_r1 worthless_form) = Some 4"
    "outcome (form_trade_r1 worthless_form) = ''Win''"
    "parseFloat (f_entry_price worthless_form) = Some 100"
    "parseFloat (f_exit_price worthless_form) = Some 0"
    "(0 - 100) * real_of_int (quantity (form_trade_r1 worthless_form))
       + premium (form_trade_r1 worthless_form) + fees (form_trade_r1 worthless_form) = - 196"
    by (simp_all add: form_trade_r1_def worthless_form_def parse_sample_numbers netPL_r1_def
        truthy_def or_null_def or_zero_def or_one_def outcome_of_def Let_def)
  show ?thesis using a b c by simp
qed

section \<open>C4: the maximum drawdown\<close>

lemma peak_at_Cons:
  "peak_at peak (b # bs) 0 = max peak b"
  "peak_at peak (b # bs) (Suc i) = peak_at (max peak b) bs i"
  by (simp_all add: peak_at_def max.commute)

lemma drawdown_loop_nonzero:
  "\<forall>i<length bs. peak_at peak bs i \<noteq> 0 \<Longrightarrow>
   drawdown_loop bs (peak, Some m) = (fold max bs peak, Some (fold max (drawdowns peak bs) m))"
proof (induction bs arbitrary: peak m)
  case Nil
  then show ?case by simp
next
  case (Cons b bs)
  have z: "max peak b \<noteq> 0" using Cons.prems peak_at_Cons(1) [of peak b bs] by auto
  have r: "\<forall>i<length bs. peak_at (max peak b) bs i \<noteq> 0"
    using Cons.prems peak_at_Cons(2) [of peak b bs] by auto
  have eq: "(if b > peak then b else peak) = max peak b" by (simp add: max_def)
  show ?case
    using Cons.IH [OF r, of "max m ((max peak b - b) / max peak b)"] z
    by (simp add: eq Let_def max.commute)
qed

lemma fold_max_ge: "(s::real) \<le> fold max xs s"
proof (induction xs arbitrary: s)
  case Nil
  then show ?case by simp
next
  case (Cons a xs)
  show ?case using Cons [of "max a s"] by simp
qed

lemma peak_at_first:
  assumes "bs \<noteq> []" shows "max start (hd bs) \<le> peak_at start bs i"
proof -
  obtain b bs' where bs: "bs = b # bs'" using assms by (cases bs) auto
  show ?thesis using fold_max_ge [of "max b start" "take i bs'"]
    by (simp add: bs peak_at_def max.commute)
qed

lemma drawdowns_nth: "map (drawdown_at peak bs) [0..<length bs] = drawdowns peak bs"
proof (induction bs arbitrary: peak)
  case Nil
  then show ?case by simp
next
  case (Cons b bs)
  have shift: "map (drawdown_at peak (b # bs)) [0..<length (b # bs)]
      = drawdown_at peak (b # bs) 0
        # map (\<lambda>i. drawdown_at peak (b # bs) (Suc i)) [0..<length bs]"
    by (simp add: upt_conv_Cons map_Suc_upt [symmetric] del: upt_Suc)
  have step: "\<And>i. drawdown_at peak (b # bs) (Suc i) = drawdown_at (max peak b) bs i"
    by (simp add: drawdown_at_def peak_at_def max.commute)
  have zero: "drawdown_at peak (b # bs) 0 = (max peak b - b) / max peak b"
    by (simp add: drawdown_at_def peak_at_def max.commute)
  show ?case using Cons.IH [of "max peak b"] by (simp only: shift step zero drawdowns.simps)
qed

lemma drawdowns_nonneg: "0 < max peak (hd bs) \<Longrightarrow> x \<in> set (drawdowns peak bs) \<Longrightarrow> 0 \<le> x"
proof (induction bs arbitrary: peak)
  case Nil
  then show ?case by simp
next
  case (Cons b bs)
  have p: "0 < max peak b" using Cons.prems(1) by simp
  then have p': "0 < max (max peak b) (hd bs)" by simp
  have "0 \<le> (max peak b - b) / max peak b" using p by simp
  then show ?case using Cons.IH [OF p'] Cons.prems(2) by auto
qed

lemma fold_max_Max: "fold max xs (m::real) = Max (insert m (set xs))"
  by (metis Max.set_eq_fold list.simps(15))

lemma max_drawdown_nonzero:
  assumes "bs \<noteq> []" and "\<forall>i<length bs. peak_at start bs i \<noteq> 0"
  shows "pm_maxDrawdown (calculatePortfolioMetrics_r1 start cur bs)
           = Some (max 0 (spec_max_drawdown start bs))"
proof -
  have ne: "set (drawdowns start bs) \<noteq> {}" using assms(1) by (cases bs) simp_all
  have "Max (insert 0 (set (drawdowns start bs))) = max 0 (Max (set (drawdowns start bs)))"
    using ne by simp
  then show ?thesis
    using drawdown_loop_nonzero [OF assms(2), of 0]
    by (simp add: calculatePortfolioMetrics_r1_def Let_def fold_max_Max
        spec_max_drawdown_def drawdowns_nth)
qed

text \<open>
  C4, as the code has it. Along a history that is not empty and on which no peak is zero,
  the maximum drawdown of revision \<open>r1\<close> is the larger of 0 and the largest drawdown,
  each drawdown being the fall from the peak so far as a fraction of that peak. When the
  first peak, the larger of the starting capital and the first balance, is positive, it is
  the largest drawdown itself; for the history 100, 120, 90, 130 from a starting capital
  of 100 it is 0.25. For an empty history it is 0. The portfolio metrics of app.js report a
  maximum drawdown of 0 whatever the history is.
\<close>

theorem max_drawdown_r1:
  "(bs \<noteq> [] \<and> 0 < max start (hd bs) \<longrightarrow>
      pm_maxDrawdown (calculatePortfolioMetrics_r1 start cur bs)
        = Some (spec_max_drawdown start bs))
   \<and> (bs \<noteq> [] \<and> (\<forall>i<length bs. peak_at start bs i \<noteq> 0) \<longrightarrow>
      pm_maxDrawdown (calculatePortfolioMetrics_r1 start cur bs)
        = Some (max 0 (spec_max_drawdown start bs)))
   \<and> pm_maxDrawdown (calculatePortfolioMetrics_r1 100 cur [100, 120, 90, 130]) = Some 0.25
   \<and> pm_maxDrawdown (calculatePortfolioMetrics_r1 start cur []) = Some 0
   \<and> am_maxDrawdown (calculatePortfolioMetrics_app start cur bs) = 0"
proof -
  have a: "pm_maxDrawdown (calculatePortfolioMetrics_r1 start cur bs)
             = Some (spec_max_drawdown start bs)"
    if ne: "bs \<noteq> []" and pos: "0 < max start (hd bs)"
  proof -
    have nz: "\<forall>i<length bs. peak_at start bs i \<noteq> 0"
      using peak_at_first [OF ne, of start] pos by (smt (verit))
    have nn: "\<forall>x\<in>set (drawdowns start bs). 0 \<le> x"
      using drawdowns_nonneg [OF pos] by blast
    have "set (drawdowns start bs) \<noteq> {}" using ne by (cases bs) simp_all
    then have "0 \<le> Max (set (drawdowns start bs))"
      using nn by (meson List.finite_set Max_in)
    then have "max 0 (spec_max_drawdown start bs) = spec_max_drawdown start bs"
      by (simp add: spec_max_drawdown_def drawdowns_nth)
    then show ?thesis using max_drawdown_nonzero [OF ne nz, of cur] by simp
  qed
  have b: "pm_maxDrawdown (calculatePortfolioMetrics_r1 100 cur [100, 120, 90, 130]) = Some 0.25"
    by (simp add: calculatePortfolioMetrics_r1_def Let_def)
  have c: "am_maxDrawdown (calculatePortfolioMetrics_app start cur bs) = 0"
    by (simp add: calculatePortfolioMetrics_app_def Let_def)
  have d: "pm_maxDrawdown (calculatePortfolioMetrics_r1 start cur []) = Some 0"
    by (simp add: calculatePortfolioMetrics_r1_def Let_def)
  show ?thesis using a b c d max_drawdown_nonzero [of bs start cur] by blast
qed

theorem max_drawdown_r1_witness:
  "pm_maxDrawdown (calculatePortfolioMetrics_r1 100 130 [100, 120, 90, 130])
     = Some (spec_max_drawdown 100 [100, 120, 90, 130])
   \<and> spec_max_drawdown 100 [100, 120, 90, 130] = (120 - 90) / 120
   \<and> pm_maxDrawdown (calculatePortfolioMetrics_r1 0 5 [10, 5])
       = Some (spec_max_drawdown 0 [10, 5])
   \<and> spec_max_drawdown 0 [10, 5] = (10 - 5) / 10
   \<and> pm_maxDrawdown (calculatePortfolioMetrics_r1 (- 10) (- 20) [- 20])
       = Some (max 0 (spec_max_drawdown (- 10) [- 20]))
   \<and> spec_max_drawdown (- 10) [- 20] = - 1"
proof -
  have v: "spec_max_drawdown 100 [100, 120, 90, 130] = (120 - 90) / 120"
    "spec_max_drawdown 0 [10, 5] = (10 - 5) / 10"
    "spec_max_drawdown (- 10) [- 20] = - 1"
    by (simp_all add: spec_max_drawdown_def drawdown_at_def peak_at_def upt_rec)
  have n: "\<forall>i<length [- 20 :: real]. peak_at (- 10) [- 20] i \<noteq> 0"
    by (simp add: peak_at_def)
  show ?thesis
    using max_drawdown_r1 [where bs = "[100, 120, 90, 130]" and start = 100 and cur = 130]
      max_drawdown_r1 [where bs = "[10, 5]" and start = 0 and cur = 5]
      max_drawdown_r1 [where bs = "[- 20]" and start = "- 10" and cur = "- 20"]
      v n
    by simp
qed

text \<open>
  C4 as stated fails on app.js: for the history 100, 120, 90, 130 its portfolio metrics
  give a maximum drawdown of 0, not 0.25. It fails in revision \<open>r1\<close> too. With the
  starting capital 0 that a new journal has, and a history 0, 10, 5, the first drawdown
  divides 0 by a peak of 0, and the maximum drawdown is not a finite number. With a starting
  capital of -10 and a history of -20 alone the drawdown is -1 and the result is 0.
\<close>

theorem max_drawdown_counterexample:
  "am_maxDrawdown (calculatePortfolioMetrics_app 100 130 [100, 120, 90, 130]) = 0
   \<and> am_maxDrawdown (calculatePortfolioMetrics_app 100 130 [100, 120, 90, 130])
       \<noteq> spec_max_drawdown 100 [100, 120, 90, 130]
   \<and> pm_maxDrawdown (calculatePortfolioMetrics_r1 0 5 [0, 10, 5]) = None
   \<and> pm_maxDrawdown (calculatePortfolioMetrics_r1 (- 10) (- 20) [- 20]) = Some 0
   \<and> spec_max_drawdown (- 10) [- 20] = - 1"
  by (simp add: calculatePortfolioMetrics_app_def calculatePortfolioMetrics_r1_def
      spec_max_drawdown_def drawdown_at_def peak_at_def upt_rec Let_def)

section \<open>C5: commas between quotes\<close>

lemma csv_scan_in_quotes:
  "CHR 0x22 \<notin> set f \<Longrightarrow> csv_scan res cur True (f @ rest) = csv_scan res (cur @ f) True rest"
  by (induction f arbitrary: cur) auto

lemma csv_scan_quoted:
  "CHR 0x22 \<notin> set f \<Longrightarrow>
   csv_scan res [] False (quote_field f @ rest) = csv_scan res f False rest"
  by (simp add: quote_field_def csv_scan_in_quotes)

lemma csv_scan_fields:
  "\<forall>f\<in>set fs. CHR 0x22 \<notin> set f \<Longrightarrow> fs \<noteq> [] \<Longrightarrow>
   csv_scan res [] False (join_fields (map quote_field fs)) = res @ map trim fs"
proof (induction fs arbitrary: res rule: join_fields.induct)
  case 1
  then show ?case by simp
next
  case (2 f)
  then show ?case using csv_scan_quoted [of f res "[]"] by simp
next
  case (3 f g fs)
  have "csv_scan res [] False (join_fields (map quote_field (f # g # fs)))
        = csv_scan res [] False (quote_field f @ CHR '','' # join_fields (map quote_field (g # fs)))"
    by simp
  also have "\<dots> = csv_scan res f False (CHR '','' # join_fields (map quote_field (g # fs)))"
    using 3(2) by (simp add: csv_scan_quoted)
  also have "\<dots> = csv_scan (res @ [trim f]) [] False (join_fields (map quote_field (g # fs)))"
    by simp
  also have "\<dots> = (res @ [trim f]) @ map trim (g # fs)"
    using 3 by simp
  finally show ?case by simp
qed

text \<open>
  \<open>parseCSVLine\<close> of revision \<open>r2\<close> reads a line of quoted fields back as those
  fields, trimmed, whatever commas they hold.
\<close>

lemma parseCSVLine_quoted_fields:
  "\<forall>f\<in>set fs. CHR 0x22 \<notin> set f \<Longrightarrow> fs \<noteq> [] \<Longrightarrow>
   parseCSVLine (join_fields (map quote_field fs)) = map trim fs"
  by (simp add: parseCSVLine_def csv_scan_fields)

lemma csv_scan_fn_step_quote:
  "csv_scan_fn res cur True (CHR 0x22 # CHR 0x22 # cs) = csv_scan_fn res (cur @ [CHR 0x22]) True cs"
  by simp

lemma csv_scan_fn_step_plain:
  "a \<noteq> CHR 0x22 \<Longrightarrow> cs \<noteq> [] \<Longrightarrow> csv_scan_fn res cur True (a # cs) = csv_scan_fn res (cur @ [a]) True cs"
  by (cases cs) simp_all

lemma csv_scan_fn_close:
  "rest = [] \<or> hd rest \<noteq> CHR 0x22 \<Longrightarrow>
   csv_scan_fn res cur True (CHR 0x22 # rest) = csv_scan_fn res cur False rest"
  by (cases rest) auto

lemma csv_scan_fn_in_quotes:
  "rest = [] \<or> hd rest \<noteq> CHR 0x22 \<Longrightarrow>
   csv_scan_fn res cur True (double_quotes f @ CHR 0x22 # rest) = csv_scan_fn res (cur @ f) False rest"
proof (induction f arbitrary: cur)
  case Nil
  then show ?case using csv_scan_fn_close [of rest res cur] by (simp add: double_quotes_def)
next
  case (Cons a f)
  show ?case
  proof (cases "a = CHR 0x22")
    case True
    have "double_quotes (a # f) @ CHR 0x22 # rest
          = CHR 0x22 # CHR 0x22 # (double_quotes f @ CHR 0x22 # rest)"
      using True by (simp add: double_quotes_def)
    then have "csv_scan_fn res cur True (double_quotes (a # f) @ CHR 0x22 # rest)
          = csv_scan_fn res (cur @ [CHR 0x22]) True (double_quotes f @ CHR 0x22 # rest)"
      by (simp only: csv_scan_fn_step_quote)
    also have "\<dots> = csv_scan_fn res ((cur @ [CHR 0x22]) @ f) False rest"
      by (rule Cons.IH [OF Cons.prems])
    finally show ?thesis using True by simp
  next
    case False
    have "double_quotes (a # f) @ CHR 0x22 # rest = a # (double_quotes f @ CHR 0x22 # rest)"
      using False by (simp add: double_quotes_def)
    then have "csv_scan_fn res cur True (double_quotes (a # f) @ CHR 0x22 # rest)
          = csv_scan_fn res (cur @ [a]) True (double_quotes f @ CHR 0x22 # rest)"
      using False by (simp add: csv_scan_fn_step_plain)
    also have "\<dots> = csv_scan_fn res ((cur @ [a]) @ f) False rest"
      by (rule Cons.IH [OF Cons.prems])
    finally show ?thesis by simp
  qed
qed

lemma csv_scan_fn_quoted:
  "rest = [] \<or> hd rest \<noteq> CHR 0x22 \<Longrightarrow>
   csv_scan_fn res [] False (quote_field_fn f @ rest) = csv_scan_fn res f False rest"
proof -
  assume r: "rest = [] \<or> hd rest \<noteq> CHR 0x22"
  obtain d cs where t: "double_quotes f @ CHR 0x22 # rest = d # cs"
    by (cases "double_quotes f @ CHR 0x22 # rest") simp_all
  have "csv_scan_fn res [] False (CHR 0x22 # d # cs) = csv_scan_fn res [] True (d # cs)"
    by simp
  then show ?thesis
    using csv_scan_fn_in_quotes [OF r, of res "[]" f] t by (simp add: quote_field_fn_def)
qed

lemma join_fields_quoted_nonempty: "fs \<noteq> [] \<Longrightarrow> join_fields (map quote_field_fn fs) \<noteq> []"
  by (induction fs rule: join_fields.induct) (simp_all add: quote_field_fn_def)

lemma csv_scan_fn_fields:
  "fs \<noteq> [] \<Longrightarrow> csv_scan_fn res [] False (join_fields (map quote_field_fn fs)) = res @ fs"
proof (induction fs arbitrary: res rule: join_fields.induct)
  case 1
  then show ?case by simp
next
  case (2 f)
  then show ?case using csv_scan_fn_quoted [of "[]" res f] by simp
next
  case (3 f g fs)
  let ?more = "join_fields (map quote_field_fn (g # fs))"
  have ne: "?more \<noteq> []" by (rule join_fields_quoted_nonempty) simp
  then obtain d cs where m: "?more = d # cs" by (cases ?more) simp_all
  have "csv_scan_fn res [] False (join_fields (map quote_field_fn (f # g # fs)))
        = csv_scan_fn res [] False (quote_field_fn f @ CHR '','' # ?more)"
    by simp
  also have "\<dots> = csv_scan_fn res f False (CHR '','' # ?more)"
    by (rule csv_scan_fn_quoted) simp
  also have "\<dots> = csv_scan_fn (res @ [f]) [] False ?more"
    unfolding m by simp
  also have "\<dots> = (res @ [f]) @ (g # fs)"
    using 3 by simp
  finally show ?case by simp
qed

text \<open>
  \<open>parseCSVLine\<close> of the function-based revision reads a line of quoted fields, their
  own quotes doubled, back as exactly those fields.
\<close>

lemma parseCSVLine_fn_quoted_fields:
  "fs \<noteq> [] \<Longrightarrow> parseCSVLine_fn (join_fields (map quote_field_fn fs)) = fs"
  by (simp add: parseCSVLine_fn_def csv_scan_fn_fields)

text \<open>
  C5 on app.js: its \<open>parseCSV\<close> splits a line at every comma, so the quoted strategy
  \<open>Covered Call, rolled\<close> becomes two fields, the row has one field more than the header
  and is dropped. Both \<open>parseCSVLine\<close> functions keep the field whole, and the \<open>parseCSV\<close>
  of revision \<open>r2\<close> reads the trade.
\<close>

theorem app_split_breaks_quoted_field:
  "split_row_app ''2024-01-02,AAPL,\"Covered Call, rolled\"''
     = [''2024-01-02'', ''AAPL'', ''Covered Call'', ''rolled'']
   \<and> parseCSVLine ''2024-01-02,AAPL,\"Covered Call, rolled\"''
     = [''2024-01-02'', ''AAPL'', ''Covered Call, rolled'']
   \<and> parseCSVLine_fn ''2024-01-02,AAPL,\"Covered Call, rolled\"''
     = [''2024-01-02'', ''AAPL'', ''Covered Call, rolled'']
   \<and> map_option (map (\<lambda>t. t ''strategy''))
         (parseCSV_app ''2024-01-05T10:00:00.000Z'' quoted_comma_csv)
     = Some []
   \<and> map_option (map (\<lambda>t. t ''strategy'') \<circ> fst)
         (parseCSV_r2 ''2024-01-05T10:00:00.000Z'' quoted_comma_csv)
     = Some [Some (Str ''Covered Call, rolled'')]"
  by code_simp

section \<open>C7: rows without a date or a ticker\<close>

lemma rows_loop_r2_acc:
  "rows_loop_r2 now hs ls (acc, n) =
     (acc @ map (normalize_r2 now)
              (filter row_valid (map (\<lambda>l. row_object hs (parseCSVLine l)) ls)),
      n + length (filter (\<lambda>t. \<not> row_valid t) (map (\<lambda>l. row_object hs (parseCSVLine l)) ls)))"
  by (induction ls arbitrary: acc n) (auto simp: Let_def row_valid_def)

lemma rows_loop_app_acc:
  "rows_loop_app now hs ls acc =
     acc @ map (normalize_app now)
             (filter row_valid (map (\<lambda>l. row_object_app hs (split_row_app l))
                (filter (\<lambda>l. length (split_row_app l) = length hs) ls)))"
  by (induction ls arbitrary: acc) (auto simp: Let_def row_valid_def)

text \<open>
  C7, as the code has it. For a file with a header line \<open>h\<close> and data lines, the
  \<open>parseCSV\<close> of revision \<open>r2\<close> returns the normalized rows that have a date and a
  ticker, in their order, and counts the other rows as skipped: every data row is parsed
  or counted, once. The \<open>parseCSV\<close> of app.js passes over the rows without a date or a
  ticker as well, and over the lines whose number of fields is not the number of headers;
  it returns the normalized rows of what is left, and counts nothing.
\<close>

theorem skipped_rows_counted:
  assumes "csv_lines csvContent = h # r # rest"
  shows "parseCSV_r2 now csvContent =
           Some (map (normalize_r2 now) (filter row_valid (data_rows_r2 h (r # rest))),
                 length (filter (\<lambda>t. \<not> row_valid t) (data_rows_r2 h (r # rest))))
         \<and> length (filter row_valid (data_rows_r2 h (r # rest)))
             + length (filter (\<lambda>t. \<not> row_valid t) (data_rows_r2 h (r # rest)))
           = length (r # rest)
         \<and> parseCSV_app now csvContent =
             Some (map (normalize_app now) (filter row_valid (data_rows_app h (r # rest))))"
proof -
  have a: "parseCSV_r2 now csvContent =
           Some (map (normalize_r2 now) (filter row_valid (data_rows_r2 h (r # rest))),
                 length (filter (\<lambda>t. \<not> row_valid t) (data_rows_r2 h (r # rest))))"
    unfolding parseCSV_r2_def assms data_rows_r2_def
    by (simp only: list.case rows_loop_r2_acc append_Nil add_0)
  have b: "parseCSV_app now csvContent =
             Some (map (normalize_app now) (filter row_valid (data_rows_app h (r # rest))))"
    unfolding parseCSV_app_def assms data_rows_app_def
    by (simp only: list.case rows_loop_app_acc append_Nil)
  have c: "length (filter row_valid (data_rows_r2 h (r # rest)))
             + length (filter (\<lambda>t. \<not> row_valid t) (data_rows_r2 h (r # rest)))
           = length (r # rest)"
    using sum_length_filter_compl [of row_valid "data_rows_r2 h (r # rest)"]
    by (simp add: data_rows_r2_def)
  show ?thesis using a b c by blast
qed

theorem skipped_rows_counted_witness:
  "map_option (\<lambda>(parsed, skipped). (map (\<lambda>t. t ''ticker'') parsed, skipped))
     (parseCSV_r2 ''2024-01-05T10:00:00.000Z''
        (text_of_lines [''date,ticker'', ''2024-01-02,AAPL'', ''2024-01-03,'', '',IBM'', ''2024-01-04,msft'']))
   = Some ([Some (Str ''AAPL''), Some (Str ''MSFT'')], 2)"
proof -
  have l: "csv_lines (text_of_lines [''date,ticker'', ''2024-01-02,AAPL'', ''2024-01-03,'', '',IBM'', ''2024-01-04,msft''])
           = ''date,ticker'' # ''2024-01-02,AAPL'' # [''2024-01-03,'', '',IBM'', ''2024-01-04,msft'']"
    by code_simp
  have v: "map (\<lambda>t. t ''ticker'')
             (map (normalize_r2 ''2024-01-05T10:00:00.000Z'')
                (filter row_valid (data_rows_r2 ''date,ticker''
                   (''2024-01-02,AAPL'' # [''2024-01-03,'', '',IBM'', ''2024-01-04,msft'']))))
           = [Some (Str ''AAPL''), Some (Str ''MSFT'')]"
    by code_simp
  have n: "length (filter (\<lambda>t. \<not> row_valid t) (data_rows_r2 ''date,ticker''
             (''2024-01-02,AAPL'' # [''2024-01-03,'', '',IBM'', ''2024-01-04,msft''])))
           = 2"
    by code_simp
  show ?thesis
    using skipped_rows_counted [OF l, of "''2024-01-05T10:00:00.000Z''"] v n by simp
qed

text \<open>
  C7 as stated fails on app.js: the row \<open>2024-01-02,AAPL\<close> has a date and a ticker, yet
  it is not parsed, because it has two fields under three headers. Revision \<open>r2\<close> pads
  the row and parses it.
\<close>

theorem short_row_dropped_counterexample:
  "row_valid (row_object (headers_r2 ''date,ticker,strategy'') (parseCSVLine ''2024-01-02,AAPL''))
   \<and> map_option (map (\<lambda>t. t ''ticker'')) (parseCSV_app ''2024-01-05T10:00:00.000Z'' short_row_csv)
     = Some [Some (Str ''MSFT'')]
   \<and> map_option (map (\<lambda>t. t ''ticker'') \<circ> fst)
         (parseCSV_r2 ''2024-01-05T10:00:00.000Z'' short_row_csv)
     = Some [Some (Str ''AAPL''), Some (Str ''MSFT'')]"
  by code_simp

section \<open>C8: the defaults of the import\<close>

lemma js_or_default: "\<not> js_truthy a \<Longrightarrow> js_or a d = d"
  by (simp add: js_truthy_def js_or_def split: option.splits)

lemma step_other:
  "k \<noteq> ''net_pl'' \<Longrightarrow> parse_net_pl t k = t k"
  "k \<noteq> ''premium'' \<Longrightarrow> parse_premium t k = t k"
  "k \<noteq> ''fees'' \<Longrightarrow> parse_fees t k = t k"
  "k \<noteq> ''quantity'' \<Longrightarrow> parse_quantity t k = t k"
  "k \<noteq> k' \<Longrightarrow> parse_price k' t k = t k"
  "k \<noteq> ''ticker'' \<Longrightarrow> upper_ticker t k = t k"
  "k \<noteq> ''strategy'' \<Longrightarrow> default_strategy t k = t k"
  "k \<noteq> ''outcome'' \<Longrightarrow> default_outcome t k = t k"
  "k \<noteq> ''outcome'' \<Longrightarrow> derive_outcome t k = t k"
  "k \<noteq> ''created_at'' \<Longrightarrow> stamp now t k = t k"
  by (simp_all add: parse_net_pl_def parse_premium_def parse_fees_def parse_quantity_def
      parse_price_def upper_ticker_def default_strategy_def default_outcome_def
      derive_outcome_def stamp_def split: option.splits jsval.splits)

lemma step_at:
  "parse_fees t ''fees'' = Some (parseFloat_val (js_or (t ''fees'') (Num (- 0.65))))"
  "parse_quantity t ''quantity'' = Some (parseInt_val (js_or (t ''quantity'') (Num 1)))"
  "default_outcome t ''outcome'' =
     Some (js_or (t ''outcome'') (Str (if ge_zero (t ''net_pl'') then ''Win'' else ''Loss'')))"
  "derive_outcome t ''outcome'' = Some (Str (if ge_zero (t ''net_pl'') then ''Win'' else ''Loss''))"
  "t ''ticker'' = Some (Str s) \<Longrightarrow> upper_ticker t ''ticker'' = Some (Str (toUpperCase s))"
  by (simp_all add: parse_fees_def parse_quantity_def default_outcome_def derive_outcome_def
      upper_ticker_def)

text \<open>
  C8, as the code has it. A field is missing when its column is absent or its text is
  empty. In the normalizers of revision \<open>r2\<close> and of app.js, missing fees become -0.65, a
  missing quantity becomes 1, a missing outcome is Win when the parsed net P&L is a number
  that is not negative and Loss otherwise (app.js sets the outcome so even when the file
  gives one), and the ticker is put in upper case. The import of the function-based
  revision gives a missing quantity 1 and puts the ticker in upper case too, but its
  missing fees become 0 and its missing outcome becomes Win.
\<close>

theorem import_defaults:
  "(\<not> js_truthy (t ''fees'') \<longrightarrow> normalize_r2 now t ''fees'' = Some (Num (- 0.65)))
   \<and> (\<not> js_truthy (t ''quantity'') \<longrightarrow> normalize_r2 now t ''quantity'' = Some (Num 1))
   \<and> (\<not> js_truthy (t ''outcome'') \<longrightarrow>
        normalize_r2 now t ''outcome''
          = Some (Str (if ge_zero (normalize_r2 now t ''net_pl'') then ''Win'' else ''Loss'')))
   \<and> (t ''ticker'' = Some (Str s) \<longrightarrow> normalize_r2 now t ''ticker'' = Some (Str (toUpperCase s)))
   \<and> (\<not> js_truthy (t ''fees'') \<longrightarrow> normalize_app now t ''fees'' = Some (Num (- 0.65)))
   \<and> (\<not> js_truthy (t ''quantity'') \<longrightarrow> normalize_app now t ''quantity'' = Some (Num 1))
   \<and> normalize_app now t ''outcome''
        = Some (Str (if ge_zero (normalize_app now t ''net_pl'') then ''Win'' else ''Loss''))
   \<and> (t ''ticker'' = Some (Str s) \<longrightarrow> normalize_app now t ''ticker'' = Some (Str (toUpperCase s)))
   \<and> (str_or (row ''quantity'') (row ''Quantity'') = [] \<longrightarrow> quantity (csv_trade_fn row) = 1)
   \<and> ticker (csv_trade_fn row) = toUpperCase (str_or (row ''ticker'') (row ''Ticker''))
   \<and> (str_or (row ''fees'') (row ''Fees'') = [] \<longrightarrow> fees (csv_trade_fn row) = 0)
   \<and> (str_or (row ''outcome'') (row ''Outcome'') = [] \<longrightarrow> outcome (csv_trade_fn row) = ''Win'')"
proof -
  have a: "\<not> js_truthy (t ''fees'') \<longrightarrow> normalize_r2 now t ''fees'' = Some (Num (- 0.65))"
    by (simp add: normalize_r2_def step_other step_at js_or_default parseFloat_val_def)
  have b: "\<not> js_truthy (t ''quantity'') \<longrightarrow> normalize_r2 now t ''quantity'' = Some (Num 1)"
    by (simp add: normalize_r2_def step_other step_at js_or_default parseInt_val_def)
  have c: "\<not> js_truthy (t ''outcome'') \<longrightarrow>
        normalize_r2 now t ''outcome''
          = Some (Str (if ge_zero (normalize_r2 now t ''net_pl'') then ''Win'' else ''Loss''))"
    by (simp add: normalize_r2_def step_other step_at js_or_default)
  have d: "t ''ticker'' = Some (Str s) \<longrightarrow> normalize_r2 now t ''ticker'' = Some (Str (toUpperCase s))"
    by (simp add: normalize_r2_def step_other step_at)
  have e: "\<not> js_truthy (t ''fees'') \<longrightarrow> normalize_app now t ''fees'' = Some (Num (- 0.65))"
    by (simp add: normalize_app_def step_other step_at js_or_default parseFloat_val_def)
  have f: "\<not> js_truthy (t ''quantity'') \<longrightarrow> normalize_app now t ''quantity'' = Some (Num 1)"
    by (simp add: normalize_app_def step_other step_at js_or_default parseInt_val_def)
  have g: "normalize_app now t ''outcome''
        = Some (Str (if ge_zero (normalize_app now t ''net_pl'') then ''Win'' else ''Loss''))"
    by (simp add: normalize_app_def step_other step_at)
  have h: "t ''ticker'' = Some (Str s) \<longrightarrow> normalize_app now t ''ticker'' = Some (Str (toUpperCase s))"
    by (simp add: normalize_app_def step_other step_at)
  have i: "str_or (row ''quantity'') (row ''Quantity'') = [] \<longrightarrow> quantity (csv_trade_fn row) = 1"
    by (simp add: csv_trade_fn_def parseInt_def or_one_def)
  have j: "ticker (csv_trade_fn row) = toUpperCase (str_or (row ''ticker'') (row ''Ticker''))"
    by (simp add: csv_trade_fn_def)
  have k: "str_or (row ''fees'') (row ''Fees'') = [] \<longrightarrow> fees (csv_trade_fn row) = 0"
    by (simp add: csv_trade_fn_def parseFloat_def or_zero_def)
  have l: "str_or (row ''outcome'') (row ''Outcome'') = [] \<longrightarrow> outcome (csv_trade_fn row) = ''Win''"
    by (simp add: csv_trade_fn_def str_default_def)
  show ?thesis using a b c d e f g h i j k l by blast
qed

theorem import_defaults_witness:
  "normalize_r2 ''2024-01-05T10:00:00.000Z'' sample_row ''fees'' = Some (Num (- 0.65))
   \<and> normalize_r2 ''2024-01-05T10:00:00.000Z'' sample_row ''quantity'' = Some (Num 1)
   \<and> normalize_r2 ''2024-01-05T10:00:00.000Z'' sample_row ''outcome'' = Some (Str ''Loss'')
   \<and> normalize_r2 ''2024-01-05T10:00:00.000Z'' sample_row ''ticker'' = Some (Str ''AAPL'')"
proof -
  have h: "\<not> js_truthy (sample_row ''fees'')" "\<not> js_truthy (sample_row ''quantity'')"
    "\<not> js_truthy (sample_row ''outcome'')" "sample_row ''ticker'' = Some (Str ''aapl'')"
    by code_simp+
  have n: "normalize_r2 ''2024-01-05T10:00:00.000Z'' sample_row ''net_pl'' = Some (Num (- 5))"
    by code_simp
  have u: "toUpperCase ''aapl'' = ''AAPL''" by code_simp
  show ?thesis
    using import_defaults [of sample_row "''2024-01-05T10:00:00.000Z''" "''aapl''"] h n u
    by (simp add: ge_zero_def)
qed

text \<open>
  C8 as stated fails on the import of the function-based revision: the row of a losing
  trade with no fees and no outcome is accepted, its fees are 0, not -0.65, and its
  outcome is Win although its net P&L is -5.
\<close>

theorem import_defaults_fn_counterexample:
  "map accepted_fn (map csv_trade_fn (snd (parseCSV_fn loss_csv))) = [True]
   \<and> map fees (map csv_trade_fn (snd (parseCSV_fn loss_csv))) = [0]
   \<and> map net_pl (map csv_trade_fn (snd (parseCSV_fn loss_csv))) = [Some (- 5)]
   \<and> map outcome (map csv_trade_fn (snd (parseCSV_fn loss_csv))) = [''Win'']"
  by code_simp

section \<open>C9: import, export, import again\<close>

text \<open>
  C9 on part_001: a file with one trade that made 50 is imported, the trade is exported,
  and the exported file is imported. The export writes the column as \<open>Net P&L\<close>; the
  import turns that header into the key \<open>net_p&l\<close> and reads the net P&L from the keys
  \<open>net_pl\<close> and \<open>net_p_l\<close> only, so the trade comes back with a net P&L of 0, the 50
  being left under the key that nothing reads.
\<close>

theorem reimport_loses_net_pl:
  "map_option (map (\<lambda>t. t ''net_pl'') \<circ> fst) (parseCSV_r2 ''2024-01-05T10:00:00.000Z'' profit_csv)
     = Some [Some (Num 50)]
   \<and> map_option (map (\<lambda>t. t ''net_pl''))
        (import_export_import fmt ''2024-01-05T10:00:00.000Z'' ''2024-01-06T10:00:00.000Z'' profit_csv)
     = Some [Some (Num 0)]
   \<and> map_option (map (\<lambda>t. t ''net_p&l''))
        (import_export_import fmt ''2024-01-05T10:00:00.000Z'' ''2024-01-06T10:00:00.000Z'' profit_csv)
     = Some [Some (Str ''50'')]"
  by code_simp

section \<open>C10: the displayed trades are among the trades\<close>

lemma tid_getAll:
  assumes "\<forall>k t. rows j k = Some t \<longrightarrow> tid t = Some k"
  shows "map tid (List.map_filter (rows j) ks) = map Some (filter (\<lambda>k. rows j k \<noteq> None) ks)"
  using assms by (induction ks) (auto simp: List.map_filter_simps split: option.splits)

lemma keyed_getAll:
  assumes "\<forall>k t. rows j k = Some t \<longrightarrow> tid t = Some k"
  shows "distinct (map tid (db_getAll j))" and "\<forall>t\<in>set (db_getAll j). \<exists>k<keygen j. tid t = Some k"
proof -
  show "distinct (map tid (db_getAll j))"
    unfolding db_getAll_def tid_getAll [OF assms] by (simp add: distinct_map)
  show "\<forall>t\<in>set (db_getAll j). \<exists>k<keygen j. tid t = Some k"
    using assms by (auto simp: db_getAll_def List.map_filter_def)
qed

lemma perm_keyed:
  assumes "mset ys = mset xs" "distinct (map tid xs)" "\<forall>t\<in>set xs. \<exists>k<n. tid t = Some k"
  shows "distinct (map tid ys)" "\<forall>t\<in>set ys. \<exists>k<n. tid t = Some k"
proof -
  have "mset (map tid ys) = mset (map tid xs)" using assms(1) by (metis mset_map)
  then show "distinct (map tid ys)" using assms(2) by (metis mset_eq_imp_distinct_iff)
  show "\<forall>t\<in>set ys. \<exists>k<n. tid t = Some k" using assms(1,3) by (metis mset_eq_setD)
qed

lemma keyed_load:
  assumes p: "\<forall>xs. mset (srt xs) = mset xs" and k: "keyed j"
  shows "keyed (loadAllData srt ok j)"
proof (cases ok)
  case True
  have r: "\<forall>k t. rows j k = Some t \<longrightarrow> tid t = Some k" using k by (simp add: keyed_def)
  have m: "mset (srt (db_getAll j)) = mset (db_getAll j)" using p by simp
  show ?thesis
    using True r perm_keyed [OF m keyed_getAll [OF r]]
    by (simp add: keyed_def loadAllData_def)
next
  case False
  then show ?thesis using k by (simp add: keyed_def loadAllData_def)
qed

lemma db_add_simps:
  "fst (db_add t j) = t\<lparr>tid := Some (keygen j)\<rparr>"
  "rows (snd (db_add t j)) = (rows j)(keygen j \<mapsto> t\<lparr>tid := Some (keygen j)\<rparr>)"
  "keygen (snd (db_add t j)) = Suc (keygen j)"
  "trades (snd (db_add t j)) = trades j"
  "filteredTrades (snd (db_add t j)) = filteredTrades j"
  "previewData (snd (db_add t j)) = previewData j"
  by (simp_all add: db_add_def Let_def)

lemma keyed_new:
  assumes k: "keyed j"
    and g: "keygen j' = Suc (keygen j)"
    and r: "rows j' = (rows j)(keygen j \<mapsto> t')"
    and i: "tid t' = Some (keygen j)"
    and m: "mset (trades j') = add_mset t' (mset (trades j))"
  shows "keyed j'"
proof -
  have old: "\<forall>t\<in>set (trades j). \<exists>k<keygen j. tid t = Some k" using k by (simp add: keyed_def)
  have fresh: "tid t' \<notin> tid ` set (trades j)"
  proof
    assume "tid t' \<in> tid ` set (trades j)"
    then obtain t where "t \<in> set (trades j)" "tid t = Some (keygen j)" using i by auto
    then show False using old by fastforce
  qed
  have "mset (map tid (trades j')) = mset (map tid (t' # trades j))"
    using m by (metis mset.simps(2) mset_map)
  then have d: "distinct (map tid (trades j'))"
    using k fresh by (metis (no_types, lifting) distinct.simps(2) keyed_def list.simps(9) mset_eq_imp_distinct_iff set_map)
  have s: "set (trades j') = insert t' (set (trades j))"
    using m by (metis set_mset_add_mset_insert set_mset_mset)
  have b: "\<forall>t\<in>set (trades j'). \<exists>k<keygen j'. tid t = Some k"
    unfolding s g using old i by (auto simp: less_Suc_eq)
  have st: "\<forall>k t. rows j' k = Some t \<longrightarrow> tid t = Some k"
    unfolding r using k i by (auto simp: keyed_def)
  show ?thesis using d b st by (simp add: keyed_def)
qed

lemma keyed_add:
  assumes "keyed j" shows "keyed (handleAddTrade_r2 f ok j)"
proof -
  let ?t = "form_trade_r2 f"
  let ?j' = "(snd (db_add ?t j))\<lparr>trades := fst (db_add ?t j) # trades (snd (db_add ?t j)),
                filteredTrades := fst (db_add ?t j) # trades (snd (db_add ?t j)),
                currentBalance :=
                  round_double (currentBalance (snd (db_add ?t j)) + (premium ?t + fees ?t))\<rparr>"
  have "keyed ?j'"
    by (rule keyed_new [OF assms, of _ "fst (db_add ?t j)"]) (simp_all add: db_add_simps)
  then show ?thesis using assms by (simp add: handleAddTrade_r2_def Let_def case_prod_beta)
qed

lemma sub_add: "mset (filteredTrades j) \<subseteq># mset (trades j) \<Longrightarrow>
   mset (filteredTrades (handleAddTrade_r2 f ok j)) \<subseteq># mset (trades (handleAddTrade_r2 f ok j))"
  by (simp add: handleAddTrade_r2_def Let_def case_prod_beta)


lemma tid_replace_first:
  "tid u = Some k \<Longrightarrow> map tid (replace_first (\<lambda>t. tid t = Some k) u xs) = map tid xs"
  by (induction xs) simp_all

lemma set_replace_first: "set (replace_first P u xs) \<subseteq> insert u (set xs)"
  by (induction xs) auto

lemma mset_replace_first:
  "mset (replace_first P u xs) =
     (case find P xs of None \<Rightarrow> mset xs | Some y \<Rightarrow> add_mset u (mset xs - {#y#}))"
proof (induction xs)
  case Nil
  then show ?case by simp
next
  case (Cons a xs)
  show ?case
  proof (cases "P a")
    case True
    then show ?thesis by simp
  next
    case False
    show ?thesis
    proof (cases "find P xs")
      case None
      then show ?thesis using False Cons by simp
    next
      case (Some y)
      then have "y \<in># mset xs" by (auto simp: find_Some_iff)
      then show ?thesis using False Cons Some by simp
    qed
  qed
qed

lemma sub_remove_absent: "y \<notin># F \<Longrightarrow> F \<subseteq># T \<Longrightarrow> F \<subseteq># T - {#y#}"
proof -
  assume n: "y \<notin># F" and s: "F \<subseteq># T"
  have "count F a \<le> count (T - {#y#}) a" for a
  proof (cases "a = y")
    case True
    then show ?thesis using n by (simp add: not_in_iff)
  next
    case False
    then show ?thesis using s by (simp add: mset_subset_eq_count)
  qed
  then show ?thesis by (simp add: mset_subset_eqI)
qed

lemma sub_add_one: "F \<subseteq># T \<Longrightarrow> F \<subseteq># add_mset u T"
  by (meson multi_psub_of_add_self subset_mset.dual_order.trans subset_mset.less_le)

lemma sub_remove_both: "F \<subseteq># T \<Longrightarrow> F - {#y#} \<subseteq># T - {#y#}"
proof -
  assume s: "F \<subseteq># T"
  have "count (F - {#y#}) a \<le> count (T - {#y#}) a" for a
    using mset_subset_eq_count [OF s, of a] by simp
  then show ?thesis by (simp add: mset_subset_eqI)
qed

lemma find_unique:
  assumes "distinct (map tid T)" "find (\<lambda>t. tid t = Some k) T = Some y" "x \<in> set T" "tid x = Some k"
  shows "x = y"
proof -
  have "y \<in> set T" "tid y = Some k" using assms(2) by (auto simp: find_Some_iff)
  then show ?thesis using assms(1,3,4) by (metis distinct_map inj_on_def)
qed

lemma sub_replace_first:
  assumes s: "mset F \<subseteq># mset T" and d: "distinct (map tid T)"
  shows "mset (replace_first (\<lambda>t. tid t = Some k) u F) \<subseteq># mset (replace_first (\<lambda>t. tid t = Some k) u T)"
proof (cases "find (\<lambda>t. tid t = Some k) T")
  case None
  then have nT: "\<forall>x\<in>set T. tid x \<noteq> Some k" by (simp add: find_None_iff)
  have "set F \<subseteq> set T" using s by (metis set_mset_mono set_mset_mset)
  then have "find (\<lambda>t. tid t = Some k) F = None" using nT by (auto simp: find_None_iff)
  then show ?thesis using None s by (simp add: mset_replace_first)
next
  case (Some y)
  have sub: "set F \<subseteq> set T" using s by (metis set_mset_mono set_mset_mset)
  show ?thesis
  proof (cases "find (\<lambda>t. tid t = Some k) F")
    case None
    have "y \<in> set T" "tid y = Some k" using Some by (auto simp: find_Some_iff)
    then have "y \<notin> set F" using None by (auto simp: find_None_iff)
    then have "y \<notin># mset F" by simp
    then have "mset F \<subseteq># mset T - {#y#}" using s by (rule sub_remove_absent)
    then have "mset F \<subseteq># add_mset u (mset T - {#y#})" by (rule sub_add_one)
    then show ?thesis using None Some by (simp add: mset_replace_first)
  next
    case (Some y')
    have "y' \<in> set F" "tid y' = Some k" using Some by (auto simp: find_Some_iff)
    then have "y' = y" using find_unique [OF d \<open>find (\<lambda>t. tid t = Some k) T = Some y\<close>] sub by blast
    moreover have "mset F - {#y#} \<subseteq># mset T - {#y#}" using s by (rule sub_remove_both)
    ultimately show ?thesis
      using Some \<open>find (\<lambda>t. tid t = Some k) T = Some y\<close> by (simp add: mset_replace_first)
  qed
qed

lemma keyed_edit:
  assumes "keyed j" shows "keyed (handleEditTrade_r2 k f get_ok put_ok j)"
proof -
  let ?u = "edit_trade_r2 k f"
  have u: "tid ?u = Some k" by (simp add: edit_trade_r2_def)
  have "keyed ((db_put k ?u j)\<lparr>currentBalance := b,
          trades := replace_first (\<lambda>t. tid t = Some k) ?u (trades (db_put k ?u j)),
          filteredTrades := fs\<rparr>)" for b fs
  proof -
    have d: "distinct (map tid (replace_first (\<lambda>t. tid t = Some k) ?u (trades j)))"
      using assms u by (simp add: tid_replace_first keyed_def)
    have b: "\<forall>t\<in>set (replace_first (\<lambda>t. tid t = Some k) ?u (trades j)). \<exists>k'<max (keygen j) (Suc k). tid t = Some k'"
    proof
      fix t assume "t \<in> set (replace_first (\<lambda>t. tid t = Some k) ?u (trades j))"
      then have "t = ?u \<or> t \<in> set (trades j)" using set_replace_first by fastforce
      then show "\<exists>k'<max (keygen j) (Suc k). tid t = Some k'"
        using u assms by (auto simp: keyed_def less_max_iff_disj)
    qed
    have r: "\<forall>k' t. ((rows j)(k \<mapsto> ?u)) k' = Some t \<longrightarrow> tid t = Some k'"
      using assms u by (auto simp: keyed_def)
    show ?thesis using d b r by (simp add: keyed_def db_put_def)
  qed
  then show ?thesis using assms
    by (simp add: handleEditTrade_r2_def Let_def split: option.splits)
qed

lemma sub_edit:
  assumes "keyed j" "mset (filteredTrades j) \<subseteq># mset (trades j)"
  shows "mset (filteredTrades (handleEditTrade_r2 k f get_ok put_ok j))
         \<subseteq># mset (trades (handleEditTrade_r2 k f get_ok put_ok j))"
proof -
  have d: "distinct (map tid (trades j))" using assms(1) by (simp add: keyed_def)
  show ?thesis
    using assms(2) sub_replace_first [OF assms(2) d]
    by (simp add: handleEditTrade_r2_def Let_def db_put_def split: option.splits)
qed

lemma keyed_delete:
  assumes "keyed j" shows "keyed (deleteTrade_r2 k confirmed get_ok delete_ok j)"
  using assms
  by (auto simp: deleteTrade_r2_def Let_def keyed_def distinct_map_filter split: option.splits)

lemma sub_delete:
  assumes "mset (filteredTrades j) \<subseteq># mset (trades j)"
  shows "mset (filteredTrades (deleteTrade_r2 k confirmed get_ok delete_ok j))
         \<subseteq># mset (trades (deleteTrade_r2 k confirmed get_ok delete_ok j))"
  using assms
  by (auto simp: deleteTrade_r2_def Let_def multiset_filter_mono split: option.splits)

lemma keyed_import_loop:
  "keyed j \<Longrightarrow> keyed (fst (import_loop add_ok i ts (j, x)))"
proof (induction ts arbitrary: i j x)
  case Nil
  then show ?case by simp
next
  case (Cons t ts)
  show ?case
  proof (cases "add_ok i")
    case True
    let ?j' = "(snd (db_add t j))\<lparr>trades := trades (snd (db_add t j)) @ [fst (db_add t j)]\<rparr>"
    have "keyed ?j'"
      by (rule keyed_new [OF Cons.prems, of _ "fst (db_add t j)"]) (simp_all add: db_add_simps)
    then show ?thesis using True Cons.IH [of ?j'] by (simp add: case_prod_beta Let_def)
  next
    case False
    then show ?thesis using Cons by simp
  qed
qed

lemma keyed_commit:
  assumes p: "\<forall>xs. mset (srt xs) = mset xs" and k: "keyed j"
  shows "keyed (commitImport srt replace confirmed clear_ok add_ok j)"
proof -
  let ?j0 = "if replace then j\<lparr>rows := (\<lambda>k. None), trades := []\<rparr> else j"
  let ?j1 = "fst (import_loop add_ok 0 (previewData ?j0) (?j0, 0))"
  have "keyed ?j0" using k by (simp add: keyed_def)
  then have k1: "keyed ?j1" by (rule keyed_import_loop)
  have m: "mset (srt (trades ?j1)) = mset (trades ?j1)" using p by simp
  have "keyed (?j1\<lparr>currentBalance := b, trades := srt (trades ?j1), filteredTrades := fs, previewData := []\<rparr>)" for b fs
    using k1 perm_keyed [OF m, of "keygen ?j1"] by (simp add: keyed_def)
  then show ?thesis using k
    by (simp add: commitImport_def Let_def case_prod_beta)
qed

lemma sub_commit:
  assumes p: "\<forall>xs. mset (srt xs) = mset xs" and s: "mset (filteredTrades j) \<subseteq># mset (trades j)"
  shows "mset (filteredTrades (commitImport srt replace confirmed clear_ok add_ok j))
         \<subseteq># mset (trades (commitImport srt replace confirmed clear_ok add_ok j))"
  using s by (simp add: commitImport_def Let_def case_prod_beta)

lemma reachable_keyed_subset:
  assumes p: "\<forall>xs. mset (srt xs) = mset xs" and r: "reachable srt dateval j"
  shows "keyed j \<and> mset (filteredTrades j) \<subseteq># mset (trades j)"
  using r
proof (induction rule: reachable.induct)
  case (constructed j)
  then show ?case by (simp add: keyed_def store_ok_def)
next
  case (loaded j getAll_ok)
  then show ?case using keyed_load [OF p] by (simp add: loadAllData_def)
next
  case (added j f add_ok)
  then show ?case using keyed_add sub_add by blast
next
  case (edited j k f get_ok put_ok)
  then show ?case using keyed_edit sub_edit by blast
next
  case (deleted j k confirmed get_ok delete_ok)
  then show ?case using keyed_delete sub_delete by blast
next
  case (previewed j parsed)
  then show ?case by (simp add: keyed_def)
next
  case (committed j replace confirmed clear_ok add_ok)
  then show ?case using keyed_commit [OF p] sub_commit [OF p] by blast
next
  case (filtered j tickerFilter strategyFilter dateFrom dateTo)
  then show ?case by (simp add: keyed_def applyFilters_def)
next
  case (reset j)
  then show ?case by (simp add: keyed_def resetFilters_def)
qed

text \<open>
  C10. Whatever order the sort gives, as long as it only reorders, in every state that the
  journal of revision \<open>r2\<close> reaches by loading, adding, editing and deleting trades,
  parsing and committing an import, applying filters and resetting them,
  \<open>filteredTrades\<close> is a sub-multiset of \<open>trades\<close>: each of its elements is an element of
  \<open>trades\<close>, as many times at most.
\<close>

theorem filtered_subset_of_trades:
  assumes "\<forall>xs. mset (srt xs) = mset xs" and "reachable srt dateval j"
  shows "mset (filteredTrades j) \<subseteq># mset (trades j) \<and> set (filteredTrades j) \<subseteq> set (trades j)"
proof -
  have "mset (filteredTrades j) \<subseteq># mset (trades j)"
    using reachable_keyed_subset [OF assms] by simp
  then show ?thesis by (metis set_mset_mono set_mset_mset)
qed

theorem filtered_subset_of_trades_witness:
  "mset (filteredTrades filtered_journal) \<subseteq># mset (trades filtered_journal)
   \<and> set (filteredTrades filtered_journal) \<subseteq> set (trades filtered_journal)
   \<and> map ticker (filteredTrades filtered_journal) = [''AAPL'']
   \<and> map tid (filteredTrades filtered_journal) = [Some 1]
   \<and> map ticker (trades filtered_journal) = [''MSFT'', ''AAPL'']
   \<and> map tid (trades filtered_journal) = [Some 2, Some 1]"
proof -
  have h1: "\<forall>xs. mset ((\<lambda>ys::trade list. ys) xs) = mset xs" by simp
  have "reachable (\<lambda>ys. ys) (\<lambda>s. None) empty_journal"
    by (rule reachable.constructed) (simp_all add: empty_journal_def store_ok_def)
  then have "reachable (\<lambda>ys. ys) (\<lambda>s. None) (handleAddTrade_r2 sample_form True empty_journal)"
    by (rule reachable.added)
  then have "reachable (\<lambda>ys. ys) (\<lambda>s. None)
      (handleAddTrade_r2 msft_form True (handleAddTrade_r2 sample_form True empty_journal))"
    by (rule reachable.added)
  then have h2: "reachable (\<lambda>ys. ys) (\<lambda>s. None) filtered_journal"
    unfolding filtered_journal_def by (rule reachable.filtered)
  have v: "map ticker (filteredTrades filtered_journal) = [''AAPL'']"
    "map tid (filteredTrades filtered_journal) = [Some 1]"
    "map ticker (trades filtered_journal) = [''MSFT'', ''AAPL'']"
    "map tid (trades filtered_journal) = [Some 2, Some 1]"
    by (code_simp, code_simp, code_simp, code_simp)
  show ?thesis using filtered_subset_of_trades [OF h1 h2] v by simp
qed

end
